theory Spec2Isabelle
  imports Main
begin

section \<open>Strings and the \<open>range\<close> loop over a string\<close>

text \<open>
  A Go \<open>string\<close> is a sequence of bytes, and so is an Isabelle \<open>string\<close>: \<open>length\<close> is
  Go's \<open>len\<close>. The loop \<open>for _, char := range password\<close> does not walk the bytes: it
  decodes UTF-8, yields one rune (code point) per step and yields \<open>0xFFFD\<close>, advancing by
  one byte, where the bytes are not valid UTF-8. \<open>DecodeRune\<close> is that decoding step on the
  byte values (the result is the rune and the number of bytes it took), \<open>runes\<close> is the
  sequence of runes the loop sees.
\<close>

definition RuneError :: int where
  "RuneError = 0xFFFD"

fun DecodeRune :: "nat list \<Rightarrow> int \<times> nat" where
  "DecodeRune [] = (RuneError, 0)"
| "DecodeRune (s0 # rest) =
    (if s0 < 0x80 then (int s0, 1)
     else if s0 < 0xC2 \<or> 0xF4 < s0 then (RuneError, 1)
     else
       let sz = (if s0 < 0xE0 then 2 else if s0 < 0xF0 then 3 else 4 :: nat);
           lo = (if s0 = 0xE0 then 0xA0 else if s0 = 0xF0 then 0x90 else 0x80 :: nat);
           hi = (if s0 = 0xED then 0x9F else if s0 = 0xF4 then 0x8F else 0xBF :: nat)
       in if length (s0 # rest) < sz then (RuneError, 1)
          else let s1 = rest ! 0 in
            if s1 < lo \<or> hi < s1 then (RuneError, 1)
            else if sz \<le> 2 then (int ((s0 mod 32) * 64 + s1 mod 64), 2)
            else let s2 = rest ! 1 in
              if s2 < 0x80 \<or> 0xBF < s2 then (RuneError, 1)
              else if sz \<le> 3
                then (int ((s0 mod 16) * 4096 + (s1 mod 64) * 64 + s2 mod 64), 3)
              else let s3 = rest ! 2 in
                if s3 < 0x80 \<or> 0xBF < s3 then (RuneError, 1)
                else (int ((s0 mod 8) * 262144 + (s1 mod 64) * 4096
                           + (s2 mod 64) * 64 + s3 mod 64), 4))"

definition DecodeRuneInString :: "string \<Rightarrow> int \<times> nat" where
  "DecodeRuneInString s = DecodeRune (map of_char s)"

function runes :: "string \<Rightarrow> int list" where
  "runes s =
    (if s = [] then []
     else fst (DecodeRuneInString s) # runes (drop (snd (DecodeRuneInString s)) s))"
  by pat_completeness auto
termination
proof (relation "measure length")
  show "wf (measure length)" by simp
next
  fix s :: string
  assume "s \<noteq> []"
  then have "1 \<le> snd (DecodeRuneInString s)"
    unfolding DecodeRuneInString_def by (cases s) (simp_all add: Let_def)
  with \<open>s \<noteq> []\<close> show "(drop (snd (DecodeRuneInString s)) s, s) \<in> measure length"
    by (cases s) auto
qed

declare runes.simps [simp del]

section \<open>Password policy\<close>

text \<open>
  \<open>isStrongPassword\<close>: the length test on the byte length, then one pass over the runes
  with the four flags. \<open>classify\<close> is the body of the loop, the \<open>switch\<close> with its
  cases in the source's order.
\<close>

record flags =
  hasUpper :: bool
  hasLower :: bool
  hasDigit :: bool
  hasSpecial :: bool

definition classify :: "flags \<Rightarrow> int \<Rightarrow> flags" where
  "classify f char =
    (if of_char CHR ''A'' \<le> char \<and> char \<le> of_char CHR ''Z'' then f\<lparr>hasUpper := True\<rparr>
     else if of_char CHR ''a'' \<le> char \<and> char \<le> of_char CHR ''z'' then f\<lparr>hasLower := True\<rparr>
     else if of_char CHR ''0'' \<le> char \<and> char \<le> of_char CHR ''9'' then f\<lparr>hasDigit := True\<rparr>
     else f\<lparr>hasSpecial := True\<rparr>)"

definition isStrongPassword :: "string \<Rightarrow> bool" where
  "isStrongPassword password =
    (if length password < 8 then False
     else
       let f = foldl classify
                 \<lparr>hasUpper = False, hasLower = False, hasDigit = False, hasSpecial = False\<rparr>
                 (runes password)
       in hasUpper f \<and> hasLower f \<and> hasDigit f \<and> hasSpecial f)"

section \<open>Data model\<close>

text \<open>
  Instants are nanoseconds on the wall clock, durations are nanoseconds; a nil pointer to a
  \<open>time.Time\<close> is \<open>None\<close>. Go's \<open>int\<close> has 64 bits: \<open>go_int\<close> is the wrap-around of
  an increment.
\<close>

type_synonym time = int
type_synonym duration = int

definition go_int :: "int \<Rightarrow> int" where
  "go_int x = (x + 2 ^ 63) mod 2 ^ 64 - 2 ^ 63"

definition Second :: duration where "Second = 1000000000"
definition Minute :: duration where "Minute = 60 * Second"
definition Hour :: duration where "Hour = 60 * Minute"

record User =
  ID :: int
  Username :: string
  Email :: string
  Password :: string
  PasswordHash :: string
  FirstName :: string
  LastName :: string
  Role :: string
  IsActive :: bool
  EmailVerified :: bool
  LastLogin :: "time option"
  FailedAttempts :: int
  LockedUntil :: "time option"
  CreatedAt :: time
  UpdatedAt :: time

record LoginRequest =
  login_Username :: string
  login_Password :: string

record RegisterRequest =
  reg_Username :: string
  reg_Email :: string
  reg_Password :: string
  reg_ConfirmPassword :: string
  reg_FirstName :: string
  reg_LastName :: string

record TokenResponse =
  AccessToken :: string
  RefreshToken :: string
  TokenType :: string
  ExpiresIn :: int
  ExpiresAt :: time

text \<open>\<open>JWTClaims\<close> with the registered claims the program sets.\<close>

record JWTClaims =
  claims_UserID :: int
  claims_Username :: string
  claims_Role :: string
  claims_ExpiresAt :: "time option"
  claims_IssuedAt :: "time option"
  claims_Issuer :: string

datatype payload = NoData | UserData User | TokenData TokenResponse

record APIResponse =
  Success :: bool
  Data :: payload
  Message :: string
  Error :: string

text \<open>One call \<open>c.JSON(status, body)\<close>.\<close>

record response =
  status :: int
  body :: APIResponse

definition failure :: "int \<Rightarrow> string \<Rightarrow> response" where
  "failure code msg =
     \<lparr>status = code, body = \<lparr>Success = False, Data = NoData, Message = [], Error = msg\<rparr>\<rparr>"

definition success :: "int \<Rightarrow> payload \<Rightarrow> string \<Rightarrow> response" where
  "success code d msg =
     \<lparr>status = code, body = \<lparr>Success = True, Data = d, Message = msg, Error = []\<rparr>\<rparr>"

text \<open>The global data stores.\<close>

record state =
  users :: "User list"
  blacklistedTokens :: "string \<rightharpoonup> bool"
  refreshTokens :: "string \<rightharpoonup> int"
  nextUserID :: int

text \<open>Reading a \<open>map[string]bool\<close> at a missing key gives \<open>false\<close>.\<close>

definition blacklisted :: "state \<Rightarrow> string \<Rightarrow> bool" where
  "blacklisted s t = (case blacklistedTokens s t of None \<Rightarrow> False | Some b \<Rightarrow> b)"

subsection \<open>Configuration\<close>

definition jwtSecret :: string where "jwtSecret = ''your-super-secret-jwt-key''"
definition accessTokenTTL :: duration where "accessTokenTTL = 15 * Minute"
definition refreshTokenTTL :: duration where "refreshTokenTTL = 7 * 24 * Hour"
definition maxFailedAttempts :: int where "maxFailedAttempts = 5"
definition lockoutDuration :: duration where "lockoutDuration = 30 * Minute"

definition RoleUser :: string where "RoleUser = ''user''"
definition RoleAdmin :: string where "RoleAdmin = ''admin''"
definition RoleModerator :: string where "RoleModerator = ''moderator''"

subsection \<open>The environment of one handler invocation\<close>

text \<open>
  What the program takes from outside itself: the clock, bcrypt, the JWT library, the
  random source and the validator of the \<open>email\<close> binding tag. They are parameters: nothing
  is assumed about what they return. An \<open>env\<close> holds their behaviour during one invocation
  of a handler. The clock is read at several places of the source, and every place has a
  reading of its own (\<open>time_Now e site\<close>), so no two readings are assumed equal.
  An \<open>error\<close> result is \<open>None\<close>; \<open>CompareHashAndPassword\<close> is \<open>True\<close> when it returns nil.
  \<open>jwt_ParseWithClaims token key\<close> is the text of the parser's error, or the parsed claims
  with the flag \<open>token.Valid\<close>. \<open>rand_Read\<close> gives the byte written at each index of the
  buffer, \<open>bind_error\<close> the text of the error of a failed binding.
\<close>

datatype call_site =
    In_isAccountLocked | In_recordFailedAttempt | In_login
  | In_generateTokens_ExpiresAt | In_generateTokens_IssuedAt | In_generateTokens_response
  | In_register_CreatedAt | In_register_UpdatedAt
  | In_updateUserProfile | In_changePassword | In_changeUserRole
  | In_main_CreatedAt | In_main_UpdatedAt

record env =
  time_Now :: "call_site \<Rightarrow> time"
  bcrypt_GenerateFromPassword :: "string \<Rightarrow> int \<Rightarrow> string option"
  bcrypt_CompareHashAndPassword :: "string \<Rightarrow> string \<Rightarrow> bool"
  jwt_NewNumericDate :: "time \<Rightarrow> time"
  jwt_SignedString :: "string \<Rightarrow> JWTClaims \<Rightarrow> string option"
  jwt_ParseWithClaims :: "string \<Rightarrow> string \<Rightarrow> string + JWTClaims \<times> bool"
  rand_Read :: "(nat \<Rightarrow> char) option"
  validator_email :: "string \<Rightarrow> bool"
  bind_error :: string

text \<open>\<open>bcrypt.DefaultCost\<close>, as the package \<open>golang.org/x/crypto/bcrypt\<close> declares it.\<close>

definition bcrypt_DefaultCost :: int where
  "bcrypt_DefaultCost = 10"

section \<open>Password hashing\<close>

definition hashPassword :: "env \<Rightarrow> string \<Rightarrow> string option" where
  "hashPassword e password = bcrypt_GenerateFromPassword e password 12"

definition verifyPassword :: "env \<Rightarrow> string \<Rightarrow> string \<Rightarrow> bool" where
  "verifyPassword e password hash = bcrypt_CompareHashAndPassword e hash password"

section \<open>Tokens\<close>

definition hexdigit :: "nat \<Rightarrow> char" where
  "hexdigit n = ''0123456789abcdef'' ! n"

definition hex_EncodeToString :: "string \<Rightarrow> string" where
  "hex_EncodeToString bytes =
     concat (map (\<lambda>b. [hexdigit (of_char b div 16), hexdigit (of_char b mod 16)]) bytes)"

definition generateRandomToken :: "env \<Rightarrow> string option" where
  "generateRandomToken e =
    (case rand_Read e of
       None \<Rightarrow> None
     | Some written \<Rightarrow> Some (hex_EncodeToString (map written [0..<32])))"

definition generateTokens ::
  "env \<Rightarrow> state \<Rightarrow> int \<Rightarrow> string \<Rightarrow> string \<Rightarrow> TokenResponse option \<times> state" where
  "generateTokens e s userID username role =
    (let accessClaims =
           \<lparr>claims_UserID = userID, claims_Username = username, claims_Role = role,
            claims_ExpiresAt = Some (jwt_NewNumericDate e
               (time_Now e In_generateTokens_ExpiresAt + accessTokenTTL)),
            claims_IssuedAt = Some (jwt_NewNumericDate e (time_Now e In_generateTokens_IssuedAt)),
            claims_Issuer = ''your-app''\<rparr>
     in case jwt_SignedString e jwtSecret accessClaims of
          None \<Rightarrow> (None, s)
        | Some accessTokenString \<Rightarrow>
           (case generateRandomToken e of
              None \<Rightarrow> (None, s)
            | Some refreshToken \<Rightarrow>
               (Some \<lparr>AccessToken = accessTokenString, RefreshToken = refreshToken,
                      TokenType = ''Bearer'', ExpiresIn = accessTokenTTL div Second,
                      ExpiresAt = time_Now e In_generateTokens_response + accessTokenTTL\<rparr>,
                s\<lparr>refreshTokens := (refreshTokens s)(refreshToken \<mapsto> userID)\<rparr>)))"

datatype token_error = Blacklisted | ParseError string | InvalidToken

definition validateToken :: "env \<Rightarrow> state \<Rightarrow> string \<Rightarrow> token_error + JWTClaims" where
  "validateToken e s tokenString =
    (if blacklisted s tokenString then Inl Blacklisted
     else case jwt_ParseWithClaims e tokenString jwtSecret of
            Inl err \<Rightarrow> Inl (ParseError err)
          | Inr (claims, valid) \<Rightarrow> if valid then Inr claims else Inl InvalidToken)"

section \<open>User lookup\<close>

text \<open>
  The lookups return a pointer into the \<open>users\<close> slice: here the index of the first
  matching element.
\<close>

fun first_index :: "('a \<Rightarrow> bool) \<Rightarrow> 'a list \<Rightarrow> nat option" where
  "first_index P [] = None"
| "first_index P (x # xs) = (if P x then Some 0 else map_option Suc (first_index P xs))"

definition findUserByUsername :: "state \<Rightarrow> string \<Rightarrow> nat option" where
  "findUserByUsername s username =
    (if username = [] then None else first_index (\<lambda>user. Username user = username) (users s))"

definition findUserByEmail :: "state \<Rightarrow> string \<Rightarrow> nat option" where
  "findUserByEmail s email =
    (if email = [] then None else first_index (\<lambda>user. Email user = email) (users s))"

definition findUserByID :: "state \<Rightarrow> int \<Rightarrow> nat option" where
  "findUserByID s uid = first_index (\<lambda>user. ID user = uid) (users s)"

section \<open>Lockout\<close>

definition isAccountLocked :: "env \<Rightarrow> User \<Rightarrow> bool" where
  "isAccountLocked e user =
    (case LockedUntil user of
       None \<Rightarrow> False
     | Some until \<Rightarrow> time_Now e In_isAccountLocked < until)"

definition recordFailedAttempt :: "env \<Rightarrow> User \<Rightarrow> User" where
  "recordFailedAttempt e user =
    (let user = user\<lparr>FailedAttempts := go_int (FailedAttempts user + 1)\<rparr>
     in if FailedAttempts user \<ge> maxFailedAttempts
        then user\<lparr>LockedUntil := Some (time_Now e In_recordFailedAttempt + lockoutDuration),
                  FailedAttempts := 0\<rparr>
        else user)"

definition resetFailedAttempts :: "User \<Rightarrow> User" where
  "resetFailedAttempts user = user\<lparr>FailedAttempts := 0, LockedUntil := None\<rparr>"

section \<open>Request binding\<close>

text \<open>
  \<open>c.ShouldBindJSON(&req)\<close> decodes the body and then checks the \<open>binding\<close> tags of the
  struct. A handler's input is the decoded struct, every absent field at its zero value,
  or \<open>None\<close> for a body that does not decode. \<open>required\<close> rejects the empty string,
  \<open>min\<close> and \<open>max\<close> bound the number of runes.
\<close>

definition RuneCountInString :: "string \<Rightarrow> nat" where
  "RuneCountInString s = length (runes s)"

definition required :: "string \<Rightarrow> bool" where
  "required v \<longleftrightarrow> v \<noteq> []"

definition bind_LoginRequest :: "LoginRequest option \<Rightarrow> LoginRequest option" where
  "bind_LoginRequest decoded =
    (case decoded of
       None \<Rightarrow> None
     | Some req \<Rightarrow>
        if required (login_Username req)
           \<and> required (login_Password req) \<and> 8 \<le> RuneCountInString (login_Password req)
        then Some req else None)"

definition bind_RegisterRequest ::
  "env \<Rightarrow> RegisterRequest option \<Rightarrow> RegisterRequest option" where
  "bind_RegisterRequest e decoded =
    (case decoded of
       None \<Rightarrow> None
     | Some req \<Rightarrow>
        if required (reg_Username req)
           \<and> 3 \<le> RuneCountInString (reg_Username req)
           \<and> RuneCountInString (reg_Username req) \<le> 30
           \<and> required (reg_Email req) \<and> validator_email e (reg_Email req)
           \<and> required (reg_Password req) \<and> 8 \<le> RuneCountInString (reg_Password req)
           \<and> required (reg_ConfirmPassword req)
           \<and> required (reg_FirstName req)
           \<and> 2 \<le> RuneCountInString (reg_FirstName req)
           \<and> RuneCountInString (reg_FirstName req) \<le> 50
           \<and> required (reg_LastName req)
           \<and> 2 \<le> RuneCountInString (reg_LastName req)
           \<and> RuneCountInString (reg_LastName req) \<le> 50
        then Some req else None)"

text \<open>The body of \<open>/auth/refresh\<close> has the one field \<open>refresh_token\<close>, \<open>required\<close>.\<close>

definition bind_RefreshRequest :: "string option \<Rightarrow> string option" where
  "bind_RefreshRequest decoded =
    (case decoded of
       None \<Rightarrow> None
     | Some token \<Rightarrow> if required token then Some token else None)"

definition TrimPrefix :: "string \<Rightarrow> string \<Rightarrow> string" where
  "TrimPrefix s prefix =
    (if take (length prefix) s = prefix then drop (length prefix) s else s)"

section \<open>The public handlers\<close>

text \<open>
  \<open>register\<close> in two parts: \<open>register_check\<close> is the handler up to and with the test
  of the username and the email, and returns the response of an early return or else the
  local \<open>req\<close>; \<open>register_insert\<close> is the rest, from the hashing on.
\<close>

definition register_check ::
  "env \<Rightarrow> state \<Rightarrow> RegisterRequest option \<Rightarrow> response + RegisterRequest" where
  "register_check e s decoded =
    (case bind_RegisterRequest e decoded of
       None \<Rightarrow> Inl (failure 400 ''Invalid input data'')
     | Some req \<Rightarrow>
        if reg_Password req \<noteq> reg_ConfirmPassword req
          then Inl (failure 400 ''Passwords do not match'')
        else if \<not> isStrongPassword (reg_Password req)
          then Inl (failure 400 ''Password does not meet strength requirements'')
        else if findUserByUsername s (reg_Username req) \<noteq> None
                \<or> findUserByEmail s (reg_Email req) \<noteq> None
          then Inl (failure 409 ''Username or email is already taken'')
        else Inr req)"

definition register_insert :: "env \<Rightarrow> state \<Rightarrow> RegisterRequest \<Rightarrow> response \<times> state" where
  "register_insert e s req =
    (case bcrypt_GenerateFromPassword e (reg_Password req) bcrypt_DefaultCost of
       None \<Rightarrow> (failure 500 ''Failed to hash password'', s)
     | Some passwordHash \<Rightarrow>
        let newUser =
              \<lparr>ID = nextUserID s, Username = reg_Username req, Email = reg_Email req,
               Password = [], PasswordHash = passwordHash,
               FirstName = reg_FirstName req, LastName = reg_LastName req,
               Role = ''user'', IsActive = True, EmailVerified = False,
               LastLogin = None, FailedAttempts = 0, LockedUntil = None,
               CreatedAt = time_Now e In_register_CreatedAt,
               UpdatedAt = time_Now e In_register_UpdatedAt\<rparr>
        in (success 201 (UserData newUser) ''User registered successfully'',
            s\<lparr>users := users s @ [newUser], nextUserID := go_int (nextUserID s + 1)\<rparr>))"

definition register :: "env \<Rightarrow> state \<Rightarrow> RegisterRequest option \<Rightarrow> response \<times> state" where
  "register e s decoded =
    (case register_check e s decoded of
       Inl early \<Rightarrow> (early, s)
     | Inr req \<Rightarrow> register_insert e s req)"

definition login :: "env \<Rightarrow> state \<Rightarrow> LoginRequest option \<Rightarrow> response \<times> state" where
  "login e s decoded =
    (case bind_LoginRequest decoded of
       None \<Rightarrow> (failure 400 ''Invalid credentials format'', s)
     | Some req \<Rightarrow>
        (case findUserByUsername s (login_Username req) of
           None \<Rightarrow> (failure 401 ''Invalid credentials'', s)
         | Some i \<Rightarrow>
            let user = users s ! i in
            if isAccountLocked e user
              then (failure 423 ''Account is temporarily locked'', s)
            else if \<not> verifyPassword e (login_Password req) (PasswordHash user)
              then (failure 401 ''Invalid credentials'',
                    s\<lparr>users := (users s)[i := recordFailedAttempt e user]\<rparr>)
            else
              let user = (resetFailedAttempts user)\<lparr>LastLogin := Some (time_Now e In_login)\<rparr>;
                  s = s\<lparr>users := (users s)[i := user]\<rparr>
              in case generateTokens e s (ID user) (Username user) (Role user) of
                   (None, s) \<Rightarrow> (failure 500 ''Failed to generate tokens'', s)
                 | (Some tokens, s) \<Rightarrow>
                     (success 200 (TokenData tokens) ''Login successful'', s)))"

text \<open>
  \<open>logout\<close> ignores the error of its \<open>ShouldBindJSON\<close>: \<open>refresh_token\<close> is the decoded
  field, empty when the body has none or does not decode.
\<close>

definition logout :: "state \<Rightarrow> string \<Rightarrow> string \<Rightarrow> response \<times> state" where
  "logout s authHeader refresh_token =
    (if authHeader = [] then (failure 401 ''Authorization header required'', s)
     else
       let tokenString = TrimPrefix authHeader ''Bearer '';
           s = s\<lparr>blacklistedTokens := (blacklistedTokens s)(tokenString \<mapsto> True)\<rparr>;
           s = (if refresh_token \<noteq> []
                then s\<lparr>refreshTokens := (refreshTokens s)(refresh_token := None)\<rparr> else s)
       in (success 200 NoData ''Logout successful'', s))"

text \<open>
  \<open>refreshToken\<close> in two parts: \<open>refreshToken_lookup\<close> is the handler up to and with the
  check of the user, and returns the response of an early return or else the locals
  (\<open>req.RefreshToken\<close> and the pointer \<open>user\<close>); \<open>refreshToken_rotate\<close> is the rest, from
  the \<open>delete\<close> on.
\<close>

definition refreshToken_lookup :: "state \<Rightarrow> string option \<Rightarrow> response + string \<times> nat" where
  "refreshToken_lookup s decoded =
    (case bind_RefreshRequest decoded of
       None \<Rightarrow> Inl (failure 400 ''Refresh token required'')
     | Some token \<Rightarrow>
        (case refreshTokens s token of
           None \<Rightarrow> Inl (failure 401 ''Invalid or expired refresh token'')
         | Some userID \<Rightarrow>
            (case findUserByID s userID of
               None \<Rightarrow> Inl (failure 401 ''User not found or is not active'')
             | Some i \<Rightarrow>
                if \<not> IsActive (users s ! i)
                then Inl (failure 401 ''User not found or is not active'')
                else Inr (token, i))))"

definition refreshToken_rotate :: "env \<Rightarrow> state \<Rightarrow> string \<times> nat \<Rightarrow> response \<times> state" where
  "refreshToken_rotate e s locals =
    (let token = fst locals; user = users s ! snd locals;
         s = s\<lparr>refreshTokens := (refreshTokens s)(token := None)\<rparr>
     in case generateTokens e s (ID user) (Username user) (Role user) of
          (None, s) \<Rightarrow> (failure 500 ''Failed to generate new tokens'', s)
        | (Some newTokens, s) \<Rightarrow>
            (success 200 (TokenData newTokens) ''Token refreshed successfully'', s))"

definition refreshToken :: "env \<Rightarrow> state \<Rightarrow> string option \<Rightarrow> response \<times> state" where
  "refreshToken e s decoded =
    (case refreshToken_lookup s decoded of
       Inl early \<Rightarrow> (early, s)
     | Inr locals \<Rightarrow> refreshToken_rotate e s locals)"

section \<open>Middleware and the protected handlers\<close>

text \<open>
  The gin context carries what \<open>authMiddleware\<close> stored under the keys \<open>claims\<close> and
  \<open>user\<close>; a key that was never set is \<open>None\<close>. Only \<open>authMiddleware\<close> sets them, to
  a \<open>*JWTClaims\<close> and a \<open>*User\<close>, so the type assertions of the handlers succeed on
  every value that is present.
\<close>

record gin_ctx =
  ctx_claims :: "JWTClaims option"
  ctx_user :: "User option"

text \<open>The zero \<open>time.Time\<close> (1 January of year 1, UTC) and the zero \<open>User\<close>.\<close>

definition zero_time :: time where
  "zero_time = - 62135596800 * Second"

definition zero_User :: User where
  "zero_User =
    \<lparr>ID = 0, Username = [], Email = [], Password = [], PasswordHash = [], FirstName = [],
     LastName = [], Role = [], IsActive = False, EmailVerified = False, LastLogin = None,
     FailedAttempts = 0, LockedUntil = None, CreatedAt = zero_time, UpdatedAt = zero_time\<rparr>"

text \<open>
  \<open>authMiddleware\<close> returns what it wrote and the context for the rest of the chain, or
  \<open>None\<close> after \<open>c.Abort()\<close>. On an invalid token it writes the 401 and returns without
  aborting, so the chain goes on with nothing set in the context.
\<close>

definition authMiddleware :: "env \<Rightarrow> state \<Rightarrow> string \<Rightarrow> response list \<times> gin_ctx option" where
  "authMiddleware e s authHeader =
    (if authHeader = [] then ([failure 401 ''Authorization header required''], None)
     else
       case validateToken e s (TrimPrefix authHeader ''Bearer '') of
         Inl err \<Rightarrow> ([failure 401 ''invalid token''], Some \<lparr>ctx_claims = None, ctx_user = None\<rparr>)
       | Inr claims \<Rightarrow>
           ([], Some \<lparr>ctx_claims = Some claims,
                     ctx_user = Some (zero_User\<lparr>ID := claims_UserID claims,
                                               Username := claims_Username claims,
                                               Role := claims_Role claims\<rparr>)\<rparr>))"

text \<open>
  The verb \<open>%v\<close> prints a slice of strings as its elements with one space between each
  two, in brackets (the brackets are in \<open>requireRole\<close> below).
\<close>

fun join_roles :: "string list \<Rightarrow> string" where
  "join_roles [] = []"
| "join_roles [r] = r"
| "join_roles (r # rest) = r @ '' '' @ join_roles rest"

text \<open>\<open>requireRole\<close> returns what it wrote and whether the chain goes on.\<close>

definition requireRole :: "string list \<Rightarrow> gin_ctx \<Rightarrow> response list \<times> bool" where
  "requireRole roles c =
    (case ctx_user c of
       None \<Rightarrow> ([failure 403 ''User data not found in context. Access denied.''], False)
     | Some currentUser \<Rightarrow>
        if Role currentUser \<in> set roles then ([], True)
        else ([failure 403 (''Access denied. Required roles: ['' @ join_roles roles
                            @ ''], your role: '' @ Role currentUser)], False))"

record ProfileRequest =
  prof_FirstName :: string
  prof_LastName :: string
  prof_Email :: string

definition bind_ProfileRequest :: "env \<Rightarrow> ProfileRequest option \<Rightarrow> ProfileRequest option" where
  "bind_ProfileRequest e decoded =
    (case decoded of
       None \<Rightarrow> None
     | Some req \<Rightarrow>
        if required (prof_FirstName req)
           \<and> 2 \<le> RuneCountInString (prof_FirstName req)
           \<and> RuneCountInString (prof_FirstName req) \<le> 50
           \<and> required (prof_LastName req)
           \<and> 2 \<le> RuneCountInString (prof_LastName req)
           \<and> RuneCountInString (prof_LastName req) \<le> 50
           \<and> required (prof_Email req) \<and> validator_email e (prof_Email req)
        then Some req else None)"

text \<open>
  \<open>updateUserProfile\<close> writes to \<open>currentUser\<close>, the struct that \<open>authMiddleware\<close> put
  into the context, and to no element of \<open>users\<close>.
\<close>

definition updateUserProfile ::
  "env \<Rightarrow> state \<Rightarrow> gin_ctx \<Rightarrow> ProfileRequest option \<Rightarrow> response \<times> state" where
  "updateUserProfile e s c decoded =
    (case ctx_user c of
       None \<Rightarrow> (failure 401 ''User not found in context'', s)
     | Some currentUser \<Rightarrow>
        (case bind_ProfileRequest e decoded of
           None \<Rightarrow> (failure 400 (''Invalid input data: '' @ bind_error e), s)
         | Some req \<Rightarrow>
            if Email currentUser \<noteq> prof_Email req \<and> findUserByEmail s (prof_Email req) \<noteq> None
              then (failure 409 ''Email is already taken'', s)
            else
              let currentUser = currentUser\<lparr>FirstName := prof_FirstName req,
                      LastName := prof_LastName req, Email := prof_Email req,
                      UpdatedAt := time_Now e In_updateUserProfile\<rparr>
              in (success 200 (UserData currentUser) ''Profile updated successfully'', s)))"

record ChangePasswordRequest =
  CurrentPassword :: string
  NewPassword :: string

definition bind_ChangePasswordRequest ::
  "ChangePasswordRequest option \<Rightarrow> ChangePasswordRequest option" where
  "bind_ChangePasswordRequest decoded =
    (case decoded of
       None \<Rightarrow> None
     | Some req \<Rightarrow>
        if required (CurrentPassword req)
           \<and> required (NewPassword req) \<and> 8 \<le> RuneCountInString (NewPassword req)
        then Some req else None)"

definition changePassword ::
  "env \<Rightarrow> state \<Rightarrow> gin_ctx \<Rightarrow> ChangePasswordRequest option \<Rightarrow> response \<times> state" where
  "changePassword e s c decoded =
    (case ctx_claims c of
       None \<Rightarrow> (failure 401 ''Unauthorized'', s)
     | Some claims \<Rightarrow>
        (case findUserByID s (claims_UserID claims) of
           None \<Rightarrow> (failure 401 ''User not found'', s)
         | Some i \<Rightarrow>
            (case bind_ChangePasswordRequest decoded of
               None \<Rightarrow> (failure 400 (''Invalid input data: '' @ bind_error e), s)
             | Some req \<Rightarrow>
                let currentUser = users s ! i in
                if \<not> bcrypt_CompareHashAndPassword e (PasswordHash currentUser)
                       (CurrentPassword req)
                  then (failure 400 ''Incorrect current password'', s)
                else
                  (case bcrypt_GenerateFromPassword e (NewPassword req) bcrypt_DefaultCost of
                     None \<Rightarrow> (failure 500 ''Failed to process new password'', s)
                   | Some newPasswordHash \<Rightarrow>
                      (success 200 NoData ''Password changed successfully'',
                       s\<lparr>users := (users s)[i := currentUser
                            \<lparr>PasswordHash := newPasswordHash,
                             UpdatedAt := time_Now e In_changePassword\<rparr>]\<rparr>)))))"

text \<open>
  \<open>changeUserRole\<close>: \<open>idParam\<close> is the result of \<open>strconv.Atoi\<close> on the path parameter
  (\<open>None\<close> for its error), \<open>decoded\<close> the field \<open>role\<close> of the body, \<open>required\<close>.
\<close>

definition changeUserRole ::
  "env \<Rightarrow> state \<Rightarrow> int option \<Rightarrow> string option \<Rightarrow> response \<times> state" where
  "changeUserRole e s idParam decoded =
    (case idParam of
       None \<Rightarrow> (failure 400 ''Invalid user ID'', s)
     | Some uid \<Rightarrow>
        (case (case decoded of None \<Rightarrow> None
               | Some role \<Rightarrow> if required role then Some role else None) of
           None \<Rightarrow> (failure 400 ''Invalid role data'', s)
         | Some role \<Rightarrow>
            if role \<notin> {RoleAdmin, RoleModerator, RoleUser}
              then (failure 400 ''Invalid role specified'', s)
            else
              (case findUserByID s uid of
                 None \<Rightarrow> (failure 404 ''User not found'', s)
               | Some i \<Rightarrow>
                  let user = (users s ! i)\<lparr>Role := role,
                                UpdatedAt := time_Now e In_changeUserRole\<rparr>
                  in (success 200 (UserData user) ''User role updated successfully'',
                      s\<lparr>users := (users s)[i := user]\<rparr>))))"

section \<open>The program: start-up and the routes\<close>

definition initial :: state where
  "initial = \<lparr>users = [], blacklistedTokens = Map.empty, refreshTokens = Map.empty,
              nextUserID = 1\<rparr>"

text \<open>\<open>main\<close> up to \<open>router.Run\<close>; it drops the error of \<open>hashPassword\<close>.\<close>

definition main :: "env \<Rightarrow> state" where
  "main e =
    (let adminHash = (case hashPassword e ''admin123'' of None \<Rightarrow> [] | Some h \<Rightarrow> h);
         s = initial;
         s = s\<lparr>users := users s @
               [\<lparr>ID = nextUserID s, Username = ''admin'', Email = ''admin@example.com'',
                 Password = [], PasswordHash = adminHash, FirstName = ''Admin'',
                 LastName = ''User'', Role = RoleAdmin, IsActive = True,
                 EmailVerified = True, LastLogin = None, FailedAttempts = 0,
                 LockedUntil = None, CreatedAt = time_Now e In_main_CreatedAt,
                 UpdatedAt = time_Now e In_main_UpdatedAt\<rparr>]\<rparr>
     in s\<lparr>nextUserID := go_int (nextUserID s + 1)\<rparr>)"

text \<open>
  The routes of \<open>setupRouter\<close> that assign to the global stores, each with the input its
  handler reads. (\<open>GET /user/profile\<close> and \<open>GET /admin/users\<close> only read.) \<open>handle\<close>
  runs the chain of one route and returns every response written, in order.
\<close>

datatype request =
    POST_auth_register "RegisterRequest option"
  | POST_auth_login "LoginRequest option"
  | POST_auth_logout string string
  | POST_auth_refresh "string option"
  | PUT_user_profile string "ProfileRequest option"
  | POST_user_change_password string "ChangePasswordRequest option"
  | PUT_admin_users_role string "int option" "string option"

fun handle :: "env \<Rightarrow> state \<Rightarrow> request \<Rightarrow> response list \<times> state" where
  "handle e s (POST_auth_register decoded) =
     (case register e s decoded of (r, s') \<Rightarrow> ([r], s'))"
| "handle e s (POST_auth_login decoded) =
     (case login e s decoded of (r, s') \<Rightarrow> ([r], s'))"
| "handle e s (POST_auth_logout authHeader refresh_token) =
     (case logout s authHeader refresh_token of (r, s') \<Rightarrow> ([r], s'))"
| "handle e s (POST_auth_refresh decoded) =
     (case refreshToken e s decoded of (r, s') \<Rightarrow> ([r], s'))"
| "handle e s (PUT_user_profile authHeader decoded) =
     (case authMiddleware e s authHeader of
        (written, None) \<Rightarrow> (written, s)
      | (written, Some c) \<Rightarrow>
          (case updateUserProfile e s c decoded of (r, s') \<Rightarrow> (written @ [r], s')))"
| "handle e s (POST_user_change_password authHeader decoded) =
     (case authMiddleware e s authHeader of
        (written, None) \<Rightarrow> (written, s)
      | (written, Some c) \<Rightarrow>
          (case changePassword e s c decoded of (r, s') \<Rightarrow> (written @ [r], s')))"
| "handle e s (PUT_admin_users_role authHeader idParam decoded) =
     (case authMiddleware e s authHeader of
        (written, None) \<Rightarrow> (written, s)
      | (written, Some c) \<Rightarrow>
          (case requireRole [RoleAdmin] c of
             (written', False) \<Rightarrow> (written @ written', s)
           | (written', True) \<Rightarrow>
               (case changeUserRole e s idParam decoded of
                  (r, s') \<Rightarrow> (written @ written' @ [r], s'))))"

text \<open>
  Requests handled one after the other, each in the environment it meets. The states the
  program reaches are \<open>run (main e0) calls\<close>.
\<close>

fun run :: "state \<Rightarrow> (env \<times> request) list \<Rightarrow> state" where
  "run s [] = s"
| "run s ((e, r) # calls) = run (snd (handle e s r)) calls"

section \<open>Vocabulary of the properties\<close>

subsection \<open>Character classes\<close>

definition is_upper :: "int \<Rightarrow> bool" where
  "is_upper c \<longleftrightarrow> of_char CHR ''A'' \<le> c \<and> c \<le> of_char CHR ''Z''"

definition is_lower :: "int \<Rightarrow> bool" where
  "is_lower c \<longleftrightarrow> of_char CHR ''a'' \<le> c \<and> c \<le> of_char CHR ''z''"

definition is_digit :: "int \<Rightarrow> bool" where
  "is_digit c \<longleftrightarrow> of_char CHR ''0'' \<le> c \<and> c \<le> of_char CHR ''9''"

definition is_alnum :: "int \<Rightarrow> bool" where
  "is_alnum c \<longleftrightarrow> is_upper c \<or> is_lower c \<or> is_digit c"

text \<open>
  The UTF-8 encodings of two letters outside ASCII: \<open>U+00E9\<close>, the lowercase letter e with
  acute, and \<open>U+00C0\<close>, the uppercase letter A with grave. Each is one character in two
  bytes.
\<close>

definition e_acute :: string where
  "e_acute = [CHR 0xC3, CHR 0xA9]"

definition A_grave :: string where
  "A_grave = [CHR 0xC3, CHR 0x80]"

subsection \<open>Views of the user store\<close>

text \<open>The fields of a user that only registration sets.\<close>

definition ident :: "User \<Rightarrow> int \<times> string \<times> string \<times> bool" where
  "ident u = (ID u, Username u, Email u, IsActive u)"

definition unique_users :: "state \<Rightarrow> bool" where
  "unique_users s \<longleftrightarrow> distinct (map Username (users s)) \<and> distinct (map Email (users s))"

definition named_users :: "state \<Rightarrow> bool" where
  "named_users s \<longleftrightarrow> [] \<notin> set (map Username (users s))"

text \<open>
  Every user is active, and every refresh token of the store is a non-empty string that
  belongs to the id of a stored user.
\<close>

definition tokens_ok :: "state \<Rightarrow> bool" where
  "tokens_ok s \<longleftrightarrow>
     (\<forall>u\<in>set (users s). IsActive u) \<and>
     (\<forall>t uid. refreshTokens s t = Some uid \<longrightarrow> t \<noteq> [] \<and> uid \<in> ID ` set (users s))"

text \<open>The store after the refresh token \<open>t\<close> of user \<open>uid\<close> was replaced by \<open>t'\<close>.\<close>

definition rotated :: "state \<Rightarrow> string \<Rightarrow> string \<Rightarrow> int \<Rightarrow> state" where
  "rotated s t t' uid = s\<lparr>refreshTokens := (refreshTokens s)(t := None, t' \<mapsto> uid)\<rparr>"

subsection \<open>Login attempts\<close>

text \<open>
  A call of \<open>login\<close> (the environment it runs in and the decoded body) that names the user
  \<open>name\<close>, finds the account \<open>user\<close> not locked and brings a password that does not
  verify against the stored hash: an attempt that \<open>recordFailedAttempt\<close> counts.
\<close>

definition wrong_password_attempt ::
  "string \<Rightarrow> User \<Rightarrow> env \<times> LoginRequest option \<Rightarrow> bool" where
  "wrong_password_attempt name user call =
    (case bind_LoginRequest (snd call) of
       None \<Rightarrow> False
     | Some req \<Rightarrow>
        login_Username req = name \<and> \<not> isAccountLocked (fst call) user
        \<and> \<not> verifyPassword (fst call) (login_Password req) (PasswordHash user))"



subsection \<open>A sample environment\<close>

text \<open>
  Stand-ins for the libraries, for the closed instances below: the clock shows \<open>now\<close> at
  every site; the bcrypt stand-in refuses a password of more than 72 bytes, as bcrypt does
  (\<open>ErrPasswordTooLong\<close>), writes the cost into the hash, as bcrypt does
  (\<open>$2a$10$...\<close>), and keeps the password after it; a token verifies when it starts with
  \<open>signed.\<close>; the random source writes \<open>seed\<close> into every byte.
\<close>

definition decimal2 :: "int \<Rightarrow> string" where
  "decimal2 n = [hexdigit (nat (n div 10)), hexdigit (nat (n mod 10))]"

definition test_env :: "time \<Rightarrow> char \<Rightarrow> env" where
  "test_env now seed =
    \<lparr>time_Now = (\<lambda>site. now),
     bcrypt_GenerateFromPassword =
       (\<lambda>password cost.
          if 72 < length password then None
          else Some (''$2a$'' @ decimal2 cost @ ''$'' @ password)),
     bcrypt_CompareHashAndPassword = (\<lambda>hash password. drop 7 hash = password),
     jwt_NewNumericDate = (\<lambda>t. t - t mod Second),
     jwt_SignedString = (\<lambda>key claims. Some (''signed.'' @ claims_Username claims)),
     jwt_ParseWithClaims =
       (\<lambda>token key.
          if take 7 token = ''signed.''
          then Inr (\<lparr>claims_UserID = 1, claims_Username = drop 7 token,
                     claims_Role = ''admin'', claims_ExpiresAt = None,
                     claims_IssuedAt = None, claims_Issuer = ''your-app''\<rparr>, True)
          else Inl ''token is malformed''),
     rand_Read = Some (\<lambda>i. seed),
     validator_email = (\<lambda>v. CHR ''@'' \<in> set v),
     bind_error = ''validation failed''\<rparr>"

definition started :: state where
  "started = main (test_env 0 CHR ''a'')"

definition admin_login :: "LoginRequest option" where
  "admin_login = Some \<lparr>login_Username = ''admin'', login_Password = ''admin123''\<rparr>"

definition wrong_login :: "LoginRequest option" where
  "wrong_login = Some \<lparr>login_Username = ''admin'', login_Password = ''letmein!!''\<rparr>"

definition alice_req :: RegisterRequest where
  "alice_req = \<lparr>reg_Username = ''alice'', reg_Email = ''alice@x.com'',
                 reg_Password = ''Abcdef1!'', reg_ConfirmPassword = ''Abcdef1!'',
                 reg_FirstName = ''Alice'', reg_LastName = ''Liddell''\<rparr>"

definition alice :: "RegisterRequest option" where
  "alice = Some alice_req"

text \<open>
  A registration under the name and the email of the administrator, with a password that is
  not strong; and one under a new name with a strong password of 73 bytes.
\<close>

definition second_admin :: "RegisterRequest option" where
  "second_admin = Some \<lparr>reg_Username = ''admin'', reg_Email = ''admin@example.com'',
                 reg_Password = ''password'', reg_ConfirmPassword = ''password'',
                 reg_FirstName = ''Admin'', reg_LastName = ''User''\<rparr>"

definition long_password :: string where
  "long_password = ''Abcdef1!'' @ replicate 65 CHR ''x''"

definition bob :: "RegisterRequest option" where
  "bob = Some \<lparr>reg_Username = ''bob'', reg_Email = ''bob@x.com'',
                 reg_Password = long_password, reg_ConfirmPassword = long_password,
                 reg_FirstName = ''Bob'', reg_LastName = ''Builder''\<rparr>"

text \<open>The refresh token that the sample random source yields with seed \<open>a\<close>.\<close>

definition token_a :: string where
  "token_a = hex_EncodeToString (replicate 32 CHR ''a'')"

text \<open>The state after the administrator logged in at time 0.\<close>

definition logged_in :: state where
  "logged_in = snd (login (test_env 0 CHR ''a'') started admin_login)"

definition token_b :: string where
  "token_b = hex_EncodeToString (replicate 32 CHR ''b'')"

definition token_c :: string where
  "token_c = hex_EncodeToString (replicate 32 CHR ''c'')"


text \<open>The context that \<open>authMiddleware\<close> builds for a token of the administrator.\<close>

definition admin_claims :: JWTClaims where
  "admin_claims =
     \<lparr>claims_UserID = 1, claims_Username = ''admin'', claims_Role = ''admin'',
      claims_ExpiresAt = None, claims_IssuedAt = None, claims_Issuer = ''your-app''\<rparr>"

definition admin_ctx :: gin_ctx where
  "admin_ctx =
     \<lparr>ctx_claims = Some admin_claims,
      ctx_user = Some (zero_User\<lparr>ID := 1, Username := ''admin'', Role := ''admin''\<rparr>)\<rparr>"

definition new_password :: "ChangePasswordRequest option" where
  "new_password = Some \<lparr>CurrentPassword = ''admin123'', NewPassword = ''Abcdef1!''\<rparr>"

section \<open>Lemmas\<close>

subsection \<open>Passwords\<close>

lemma foldl_classify:
  "hasUpper (foldl classify f rs) = (hasUpper f \<or> (\<exists>c\<in>set rs. is_upper c))"
  "hasLower (foldl classify f rs) = (hasLower f \<or> (\<exists>c\<in>set rs. is_lower c))"
  "hasDigit (foldl classify f rs) = (hasDigit f \<or> (\<exists>c\<in>set rs. is_digit c))"
  "hasSpecial (foldl classify f rs) = (hasSpecial f \<or> (\<exists>c\<in>set rs. \<not> is_alnum c))"
  by (induction rs arbitrary: f;
      auto simp: classify_def is_upper_def is_lower_def is_digit_def is_alnum_def)+

text \<open>
  UTF-8 never hides an ASCII byte inside a longer character, and every character that is
  not ASCII counts as special. So the four tests can be read on the bytes of the password
  as well.
\<close>

lemma mod_window: "q * m \<le> n \<Longrightarrow> n < q * m + m \<Longrightarrow> n mod m = n - q * m" for n m q :: nat
proof -
  assume a: "q * m \<le> n" "n < q * m + m"
  then have "n = q * m + (n - q * m)" "n - q * m < m" by simp_all
  then show ?thesis
    by (metis mod_less mod_mult_self3)
qed

lemma lead2: "\<not> s0 < 194 \<Longrightarrow> s0 < 224 \<Longrightarrow> 2 \<le> s0 mod 32" for s0 :: nat
  using mod_window [of 6 32 s0] by simp

lemma lead3: "s0 \<noteq> 224 \<Longrightarrow> \<not> s0 < 224 \<Longrightarrow> s0 < 240 \<Longrightarrow> 1 \<le> s0 mod 16" for s0 :: nat
  using mod_window [of 14 16 s0] by simp

lemma cont_A0: "\<not> s1 < 160 \<Longrightarrow> \<not> 191 < s1 \<Longrightarrow> 32 \<le> s1 mod 64" for s1 :: nat
  using mod_window [of 2 64 s1] by simp

lemma lead4: "s0 \<noteq> 240 \<Longrightarrow> \<not> s0 < 240 \<Longrightarrow> \<not> 244 < s0 \<Longrightarrow> 1 \<le> s0 mod 8" for s0 :: nat
  using mod_window [of 30 8 s0] by simp

lemma cont_90: "\<not> s1 < 144 \<Longrightarrow> \<not> 191 < s1 \<Longrightarrow> 16 \<le> s1 mod 64" for s1 :: nat
  using mod_window [of 2 64 s1] by simp

lemma DecodeRune_other:
  assumes "\<not> s0 < 0x80" "DecodeRune (s0 # rest) = (r, w)"
  shows "128 \<le> r \<and> 1 \<le> w \<and> (\<forall>b\<in>set (take (w - 1) rest). 128 \<le> b)"
proof (cases rest)
  case Nil
  with assms show ?thesis by (auto simp: Let_def RuneError_def split: if_splits)
next
  case (Cons s1 r1)
  note c1 = this
  have two: "128 \<le> int (s0 mod 32) * 64 + int (s1 mod 64)" if "\<not> s0 < 194" "s0 < 224"
    using lead2 [OF that] by simp
  have three: "128 \<le> int (s0 mod 16) * 4096 + int (s1 mod 64) * 64 + int (s2 mod 64)"
    if "\<not> s0 < 224" "s0 < 240" "\<not> s1 < (if s0 = 224 then 160 else 128)" "\<not> 191 < s1" for s2
    using that lead3 [of s0] cont_A0 [of s1] by (cases "s0 = 224") simp_all
  have four: "128 \<le> int (s0 mod 8) * 262144 + int (s1 mod 64) * 4096 + int (s2 mod 64) * 64
        + int (s3 mod 64)"
    if "\<not> s0 < 240" "\<not> 244 < s0" "\<not> s1 < (if s0 = 240 then 144 else 128)" "\<not> 191 < s1"
    for s2 s3
    using that lead4 [of s0] cont_90 [of s1] by (cases "s0 = 240") simp_all
  show ?thesis
  proof (cases r1)
    case Nil
    with c1 assms two show ?thesis by (auto simp: Let_def RuneError_def split: if_splits)
  next
    case (Cons s2 r2)
    note c2 = this
    show ?thesis
    proof (cases r2)
      case Nil
      with c1 c2 assms two three show ?thesis
        by (auto simp: Let_def RuneError_def split: if_splits)
    next
      case (Cons s3 r3)
      with c1 c2 assms two three four show ?thesis
        by (auto simp: Let_def RuneError_def split: if_splits)
    qed
  qed
qed

lemma runes_Nil [simp]: "runes [] = []"
  by (simp add: runes.simps)

lemma runes_ex_iff:
  assumes P: "\<And>r r'. 128 \<le> r \<Longrightarrow> 128 \<le> r' \<Longrightarrow> P r = P r'"
  shows "(\<exists>r\<in>set (runes s). P r) \<longleftrightarrow> (\<exists>c\<in>set s. P (of_char c))"
proof (induction s rule: runes.induct)
  case (1 s)
  show ?case
  proof (cases s)
    case Nil
    then show ?thesis by simp
  next
    case (Cons c cs)
    obtain r w where rw: "DecodeRune (of_char c # map of_char cs) = (r, w)"
      by (cases "DecodeRune (of_char c # map of_char cs)")
    then have dec: "DecodeRuneInString s = (r, w)"
      by (simp add: DecodeRuneInString_def Cons)
    have IH: "(\<exists>r\<in>set (runes (drop w s)). P r) \<longleftrightarrow> (\<exists>c\<in>set (drop w s). P (of_char c))"
      using "1.IH" dec Cons by simp
    have unf: "runes s = r # runes (drop w s)"
      using dec Cons by (subst runes.simps) simp
    show ?thesis
    proof (cases "(of_char c :: nat) < 0x80")
      case True
      with rw have "r = int (of_char c)" "w = 1" by simp_all
      then have "r = of_char c" "drop w s = cs"
        by (simp_all add: Cons of_nat_of_char)
      with IH unf show ?thesis by (simp add: Cons)
    next
      case False
      from DecodeRune_other [OF False rw]
      have r: "128 \<le> r" and w: "1 \<le> w"
        and tk: "\<forall>b\<in>set (take (w - 1) (map of_char cs)). 128 \<le> (b :: nat)"
        by simp_all
      have c: "128 \<le> (of_char c :: int)"
        using False by (simp flip: of_nat_of_char [where ?'a = int])
      have skipped: "128 \<le> (of_char d :: int)" if "d \<in> set (take (w - 1) cs)" for d
      proof -
        from that have "(of_char d :: nat) \<in> set (take (w - 1) (map of_char cs))"
          by (simp add: take_map)
        with tk have "128 \<le> (of_char d :: nat)" by blast
        then show ?thesis by (simp flip: of_nat_of_char [where ?'a = int])
      qed
      have dr: "drop w s = drop (w - 1) cs"
        using w by (cases w) (simp_all add: Cons)
      have "set cs = set (take (w - 1) cs) \<union> set (drop (w - 1) cs)"
        by (metis append_take_drop_id set_append)
      then have "(\<exists>d\<in>set s. P (of_char d)) \<longleftrightarrow>
          P (of_char c) \<or> (\<exists>d\<in>set (take (w - 1) cs). P (of_char d))
          \<or> (\<exists>d\<in>set (drop (w - 1) cs). P (of_char d))"
        by (auto simp: Cons)
      also have "\<dots> \<longleftrightarrow> P r \<or> (\<exists>d\<in>set (drop (w - 1) cs). P (of_char d))"
        using P [OF c r] P [OF skipped r] by blast
      finally show ?thesis
        using IH unf dr by simp
    qed
  qed
qed

lemma isStrongPassword_bytes:
  "isStrongPassword p \<longleftrightarrow>
     8 \<le> length p \<and> (\<exists>c\<in>set p. is_upper (of_char c)) \<and> (\<exists>c\<in>set p. is_lower (of_char c))
     \<and> (\<exists>c\<in>set p. is_digit (of_char c)) \<and> (\<exists>c\<in>set p. \<not> is_alnum (of_char c))"
proof -
  have "(\<exists>r\<in>set (runes p). is_upper r) \<longleftrightarrow> (\<exists>c\<in>set p. is_upper (of_char c))"
    by (rule runes_ex_iff) (simp add: is_upper_def)
  moreover have "(\<exists>r\<in>set (runes p). is_lower r) \<longleftrightarrow> (\<exists>c\<in>set p. is_lower (of_char c))"
    by (rule runes_ex_iff) (simp add: is_lower_def)
  moreover have "(\<exists>r\<in>set (runes p). is_digit r) \<longleftrightarrow> (\<exists>c\<in>set p. is_digit (of_char c))"
    by (rule runes_ex_iff) (simp add: is_digit_def)
  moreover have "(\<exists>r\<in>set (runes p). \<not> is_alnum r) \<longleftrightarrow> (\<exists>c\<in>set p. \<not> is_alnum (of_char c))"
    by (rule runes_ex_iff) (simp add: is_alnum_def is_upper_def is_lower_def is_digit_def)
  ultimately show ?thesis
    by (simp add: isStrongPassword_def Let_def foldl_classify not_less)
qed

text \<open>
  Characters and bytes. Every step of the loop takes at least one byte, so a password has
  at most as many characters as bytes; a password of ASCII bytes alone has one character
  for each byte. \<open>isStrongPassword_len\<close> is the function as the code computes it, the
  length test on the bytes.
\<close>

lemma DecodeRune_width: "s \<noteq> [] \<Longrightarrow> 1 \<le> snd (DecodeRuneInString s)"
  unfolding DecodeRuneInString_def by (cases s) (simp_all add: Let_def)

lemma runes_length_le: "length (runes p) \<le> length p"
proof (induction p rule: runes.induct)
  case (1 s)
  show ?case
  proof (cases "s = []")
    case True
    then show ?thesis by simp
  next
    case False
    with 1 have "length (runes (drop (snd (DecodeRuneInString s)) s))
        \<le> length s - snd (DecodeRuneInString s)"
      by simp
    with False DecodeRune_width [of s] show ?thesis
      by (subst runes.simps) (cases s; simp)
  qed
qed

lemma runes_ascii: "list_all (\<lambda>c. of_char c < (128 :: nat)) p \<Longrightarrow> runes p = map of_char p"
proof (induction p)
  case Nil
  then show ?case by simp
next
  case (Cons c p)
  then show ?case
    by (subst runes.simps) (simp add: DecodeRuneInString_def of_nat_of_char)
qed

lemma isStrongPassword_len:
  "isStrongPassword p \<longleftrightarrow>
     8 \<le> length p \<and> (\<exists>c\<in>set (runes p). is_upper c) \<and> (\<exists>c\<in>set (runes p). is_lower c)
     \<and> (\<exists>c\<in>set (runes p). is_digit c) \<and> (\<exists>c\<in>set (runes p). \<not> is_alnum c)"
  by (simp add: isStrongPassword_def Let_def foldl_classify not_less)

subsection \<open>Lookups and stores\<close>

lemma first_index_Some: "first_index P xs = Some i \<Longrightarrow> i < length xs \<and> P (xs ! i)"
  by (induction xs arbitrary: i) (auto split: if_splits)

lemma first_index_None: "first_index P xs = None \<longleftrightarrow> (\<forall>x\<in>set xs. \<not> P x)"
  by (induction xs) auto


lemma map_update_same: "i < length xs \<Longrightarrow> f u = f (xs ! i) \<Longrightarrow> map f (xs[i := u]) = map f xs"
  by (simp add: list_eq_iff_nth_eq nth_list_update)

lemma generateTokens_frame:
  "users (snd (generateTokens e s uid name role)) = users s"
  "blacklistedTokens (snd (generateTokens e s uid name role)) = blacklistedTokens s"
  "nextUserID (snd (generateTokens e s uid name role)) = nextUserID s"
  by (simp_all add: generateTokens_def Let_def split: option.splits)

lemma hex_length: "length (hex_EncodeToString bs) = 2 * length bs"
  by (induction bs) (simp_all add: hex_EncodeToString_def)

lemma generateRandomToken_length: "generateRandomToken e = Some t \<Longrightarrow> length t = 64"
  by (auto simp: generateRandomToken_def hex_length split: option.splits)

lemma snd_case_gen:
  "snd (case p of (None, s) \<Rightarrow> (f, s) | (Some t, s) \<Rightarrow> (g t, s)) = snd p"
  by (cases p) (auto split: option.splits)

lemma login_state:
  "snd (login e s d) =
    (case bind_LoginRequest d of
       None \<Rightarrow> s
     | Some req \<Rightarrow>
        (case findUserByUsername s (login_Username req) of
           None \<Rightarrow> s
         | Some i \<Rightarrow>
            if isAccountLocked e (users s ! i) then s
            else if \<not> verifyPassword e (login_Password req) (PasswordHash (users s ! i))
              then s\<lparr>users := (users s)[i := recordFailedAttempt e (users s ! i)]\<rparr>
            else snd (generateTokens e
                   (s\<lparr>users := (users s)[i := (resetFailedAttempts (users s ! i))
                                            \<lparr>LastLogin := Some (time_Now e In_login)\<rparr>]\<rparr>)
                   (ID (users s ! i)) (Username (users s ! i)) (Role (users s ! i)))))"
  by (simp add: login_def Let_def snd_case_gen resetFailedAttempts_def split: option.splits)

lemma findUserByUsername_Some:
  "findUserByUsername s n = Some i \<Longrightarrow> i < length (users s) \<and> Username (users s ! i) = n \<and> n \<noteq> []"
  by (auto simp: findUserByUsername_def dest: first_index_Some split: if_splits)

lemma recordFailedAttempt_ident [simp]:
  "ident (recordFailedAttempt e u) = ident u" "Role (recordFailedAttempt e u) = Role u"
  by (simp_all add: recordFailedAttempt_def Let_def ident_def)

lemma resetFailedAttempts_ident [simp]:
  "ident (resetFailedAttempts u) = ident u" "Role (resetFailedAttempts u) = Role u"
  by (simp_all add: resetFailedAttempts_def ident_def)

lemma ident_LastLogin [simp]: "ident (u\<lparr>LastLogin := t\<rparr>) = ident u"
  by (simp add: ident_def)

lemma login_ident: "map ident (users (snd (login e s d))) = map ident (users s)"
  by (auto simp: login_state generateTokens_frame map_update_same
      dest!: findUserByUsername_Some split: option.splits)

lemma login_roles: "map Role (users (snd (login e s d))) = map Role (users s)"
  by (auto simp: login_state generateTokens_frame map_update_same
      dest!: findUserByUsername_Some split: option.splits)

lemma findUserByID_Some:
  "findUserByID s n = Some i \<Longrightarrow> i < length (users s) \<and> ID (users s ! i) = n"
  by (auto simp: findUserByID_def dest: first_index_Some)

lemma register_unfold:
  "register e s decoded =
    (case bind_RegisterRequest e decoded of
       None \<Rightarrow> (failure 400 ''Invalid input data'', s)
     | Some req \<Rightarrow>
        if reg_Password req \<noteq> reg_ConfirmPassword req
          then (failure 400 ''Passwords do not match'', s)
        else if \<not> isStrongPassword (reg_Password req)
          then (failure 400 ''Password does not meet strength requirements'', s)
        else if findUserByUsername s (reg_Username req) \<noteq> None
                \<or> findUserByEmail s (reg_Email req) \<noteq> None
          then (failure 409 ''Username or email is already taken'', s)
        else
          (case bcrypt_GenerateFromPassword e (reg_Password req) bcrypt_DefaultCost of
             None \<Rightarrow> (failure 500 ''Failed to hash password'', s)
           | Some passwordHash \<Rightarrow>
              let newUser =
                    \<lparr>ID = nextUserID s, Username = reg_Username req, Email = reg_Email req,
                     Password = [], PasswordHash = passwordHash,
                     FirstName = reg_FirstName req, LastName = reg_LastName req,
                     Role = ''user'', IsActive = True, EmailVerified = False,
                     LastLogin = None, FailedAttempts = 0, LockedUntil = None,
                     CreatedAt = time_Now e In_register_CreatedAt,
                     UpdatedAt = time_Now e In_register_UpdatedAt\<rparr>
              in (success 201 (UserData newUser) ''User registered successfully'',
                  s\<lparr>users := users s @ [newUser], nextUserID := go_int (nextUserID s + 1)\<rparr>)))"
  by (simp add: register_def register_check_def register_insert_def Let_def split: option.splits)

lemma register_state:
  "snd (register e s d) =
    (case bind_RegisterRequest e d of
       None \<Rightarrow> s
     | Some req \<Rightarrow>
        if reg_Password req \<noteq> reg_ConfirmPassword req \<or> \<not> isStrongPassword (reg_Password req)
           \<or> findUserByUsername s (reg_Username req) \<noteq> None
           \<or> findUserByEmail s (reg_Email req) \<noteq> None
        then s
        else
          (case bcrypt_GenerateFromPassword e (reg_Password req) bcrypt_DefaultCost of
             None \<Rightarrow> s
           | Some passwordHash \<Rightarrow>
              s\<lparr>users := users s @
                   [\<lparr>ID = nextUserID s, Username = reg_Username req, Email = reg_Email req,
                     Password = [], PasswordHash = passwordHash,
                     FirstName = reg_FirstName req, LastName = reg_LastName req,
                     Role = ''user'', IsActive = True, EmailVerified = False,
                     LastLogin = None, FailedAttempts = 0, LockedUntil = None,
                     CreatedAt = time_Now e In_register_CreatedAt,
                     UpdatedAt = time_Now e In_register_UpdatedAt\<rparr>],
                 nextUserID := go_int (nextUserID s + 1)\<rparr>))"
  by (simp add: register_unfold Let_def split: option.splits)

lemma logout_state:
  "snd (logout s h rt) =
    (if h = [] then s
     else s\<lparr>blacklistedTokens := (blacklistedTokens s)(TrimPrefix h ''Bearer '' \<mapsto> True),
            refreshTokens := (if rt \<noteq> [] then (refreshTokens s)(rt := None) else refreshTokens s)\<rparr>)"
  by (simp add: logout_def Let_def)

lemma refreshToken_state:
  "snd (refreshToken e s d) =
    (case refreshToken_lookup s d of
       Inl early \<Rightarrow> s
     | Inr locals \<Rightarrow>
         snd (generateTokens e (s\<lparr>refreshTokens := (refreshTokens s)(fst locals := None)\<rparr>)
                (ID (users s ! snd locals)) (Username (users s ! snd locals))
                (Role (users s ! snd locals))))"
  by (simp add: refreshToken_def refreshToken_rotate_def Let_def snd_case_gen split: sum.splits)

lemma refreshToken_lookup_Inr:
  "refreshToken_lookup s d = Inr (t, i) \<Longrightarrow>
     d = Some t \<and> t \<noteq> [] \<and> i < length (users s) \<and> refreshTokens s t = Some (ID (users s ! i))
     \<and> findUserByID s (ID (users s ! i)) = Some i \<and> IsActive (users s ! i)"
  by (auto simp: refreshToken_lookup_def bind_RefreshRequest_def required_def
      dest: findUserByID_Some split: option.splits if_splits)

lemma updateUserProfile_state: "snd (updateUserProfile e s c d) = s"
  by (simp add: updateUserProfile_def Let_def split: option.splits)

lemma changePassword_state:
  "snd (changePassword e s c d) = s \<or>
   (\<exists>i h t. i < length (users s) \<and>
      snd (changePassword e s c d) =
         s\<lparr>users := (users s)[i := (users s ! i)\<lparr>PasswordHash := h, UpdatedAt := t\<rparr>]\<rparr>)"
  by (auto simp: changePassword_def Let_def dest: findUserByID_Some split: option.splits)

lemma changeUserRole_state:
  "snd (changeUserRole e s p d) = s \<or>
   (\<exists>i r t. i < length (users s) \<and> r \<in> {RoleAdmin, RoleModerator, RoleUser} \<and>
      snd (changeUserRole e s p d) =
         s\<lparr>users := (users s)[i := (users s ! i)\<lparr>Role := r, UpdatedAt := t\<rparr>]\<rparr>)"
  by (auto simp: changeUserRole_def Let_def dest: findUserByID_Some split: option.splits)

lemma ident_maps:
  assumes "map ident xs = map ident ys"
  shows "map ID xs = map ID ys" "map Username xs = map Username ys"
    "map Email xs = map Email ys" "map IsActive xs = map IsActive ys"
proof -
  have *: "map (g \<circ> ident) xs = map (g \<circ> ident) ys" for g :: "int \<times> string \<times> string \<times> bool \<Rightarrow> 'b"
    using assms by (metis map_map)
  have "ID = fst \<circ> ident" "Username = (fst \<circ> snd) \<circ> ident"
    "Email = (fst \<circ> snd \<circ> snd) \<circ> ident" "IsActive = (snd \<circ> snd \<circ> snd) \<circ> ident"
    by (simp_all add: fun_eq_iff ident_def)
  then show "map ID xs = map ID ys" "map Username xs = map Username ys"
    "map Email xs = map Email ys" "map IsActive xs = map IsActive ys"
    using * by metis+
qed

lemma generateTokens_refreshTokens:
  "refreshTokens (snd (generateTokens e s uid n r)) t = Some u \<Longrightarrow>
     refreshTokens s t = Some u \<or> (length t = 64 \<and> u = uid)"
  by (auto simp: generateTokens_def Let_def dest: generateRandomToken_length
      split: option.splits if_splits)

lemma register_users:
  "users (snd (register e s d)) = users s \<or>
   (\<exists>u. users (snd (register e s d)) = users s @ [u]
      \<and> Username u \<notin> Username ` set (users s) \<and> Email u \<notin> Email ` set (users s)
      \<and> Role u = ''user'' \<and> IsActive u \<and> \<not> EmailVerified u)"
proof (cases "users (snd (register e s d)) = users s")
  case True
  then show ?thesis by simp
next
  case False
  then obtain req h where req: "bind_RegisterRequest e d = Some req"
    and free: "findUserByUsername s (reg_Username req) = None"
      "findUserByEmail s (reg_Email req) = None"
    and h: "bcrypt_GenerateFromPassword e (reg_Password req) bcrypt_DefaultCost = Some h"
    by (auto simp: register_state split: option.splits if_splits)
  from req have "reg_Username req \<noteq> []" "reg_Email req \<noteq> []"
    by (auto simp: bind_RegisterRequest_def required_def split: option.splits if_splits)
  with free have "reg_Username req \<notin> Username ` set (users s)"
    "reg_Email req \<notin> Email ` set (users s)"
    by (auto simp: findUserByUsername_def findUserByEmail_def first_index_None)
  with req free h show ?thesis
    by (auto simp: register_state)
qed

lemma register_frame:
  "blacklistedTokens (snd (register e s d)) = blacklistedTokens s"
  "refreshTokens (snd (register e s d)) = refreshTokens s"
  by (simp_all add: register_state split: option.splits)

lemma login_refreshTokens:
  "refreshTokens (snd (login e s d)) t = Some u \<Longrightarrow>
     refreshTokens s t = Some u \<or> (length t = 64 \<and> u \<in> ID ` set (users s))"
  by (auto simp: login_state dest!: findUserByUsername_Some generateTokens_refreshTokens
      split: option.splits if_splits)

lemma logout_frame:
  "users (snd (logout s h rt)) = users s"
  "blacklisted s t \<Longrightarrow> blacklisted (snd (logout s h rt)) t"
  "refreshTokens (snd (logout s h rt)) t = Some u \<Longrightarrow> refreshTokens s t = Some u"
  by (auto simp: logout_state blacklisted_def split: if_splits)

lemma refreshToken_frame:
  "users (snd (refreshToken e s d)) = users s"
  "blacklistedTokens (snd (refreshToken e s d)) = blacklistedTokens s"
  by (simp_all add: refreshToken_state generateTokens_frame split: sum.splits)

lemma refreshToken_refreshTokens:
  "refreshTokens (snd (refreshToken e s d)) t = Some u \<Longrightarrow>
     refreshTokens s t = Some u \<or> (length t = 64 \<and> u \<in> ID ` set (users s))"
  by (auto simp: refreshToken_state
      dest!: refreshToken_lookup_Inr generateTokens_refreshTokens
      split: sum.splits if_splits)

lemma changePassword_frame:
  "map ident (users (snd (changePassword e s c d))) = map ident (users s)"
  "map Role (users (snd (changePassword e s c d))) = map Role (users s)"
  "blacklistedTokens (snd (changePassword e s c d)) = blacklistedTokens s"
  "refreshTokens (snd (changePassword e s c d)) = refreshTokens s"
  using changePassword_state [of e s c d]
  by (auto simp: map_update_same ident_def)

lemma changeUserRole_frame:
  "map ident (users (snd (changeUserRole e s p d))) = map ident (users s)"
  "blacklistedTokens (snd (changeUserRole e s p d)) = blacklistedTokens s"
  "refreshTokens (snd (changeUserRole e s p d)) = refreshTokens s"
  using changeUserRole_state [of e s p d]
  by (auto simp: map_update_same ident_def)

lemma login_frame: "blacklistedTokens (snd (login e s d)) = blacklistedTokens s"
  by (auto simp: login_state generateTokens_frame split: option.splits)

text \<open>What one request does to each store.\<close>

lemma handle_state:
  "snd (handle e s (POST_auth_register dr)) = snd (register e s dr)"
  "snd (handle e s (POST_auth_login dl)) = snd (login e s dl)"
  "snd (handle e s (POST_auth_logout h rt)) = snd (logout s h rt)"
  "snd (handle e s (POST_auth_refresh df)) = snd (refreshToken e s df)"
  "snd (handle e s (PUT_user_profile h dp)) = s"
  "snd (handle e s (POST_user_change_password h dc)) =
     (case snd (authMiddleware e s h) of None \<Rightarrow> s | Some c \<Rightarrow> snd (changePassword e s c dc))"
  "snd (handle e s (PUT_admin_users_role h p d)) =
     (case snd (authMiddleware e s h) of
        None \<Rightarrow> s
      | Some c \<Rightarrow> if snd (requireRole [RoleAdmin] c) then snd (changeUserRole e s p d) else s)"
  by (auto split: prod.splits option.splits bool.splits
      dest: arg_cong [where f = snd and x = "updateUserProfile e s _ dp"]
      simp: updateUserProfile_state)

declare handle.simps [simp del]

lemma handle_blacklisted: "blacklisted s t \<Longrightarrow> blacklisted (snd (handle e s r)) t"
  by (cases r)
    (auto simp: handle_state blacklisted_def register_frame login_frame refreshToken_frame
       changePassword_frame changeUserRole_frame logout_state split: option.splits)

lemma run_blacklisted: "blacklisted s t \<Longrightarrow> blacklisted (run s calls) t"
  by (induction calls arbitrary: s) (auto simp: handle_blacklisted)

lemma handle_users:
  "map ident (users (snd (handle e s r))) = map ident (users s) \<or>
   (\<exists>d u. r = POST_auth_register d \<and> users (snd (handle e s r)) = users s @ [u]
      \<and> Username u \<notin> Username ` set (users s) \<and> Email u \<notin> Email ` set (users s)
      \<and> Role u = ''user'' \<and> IsActive u \<and> \<not> EmailVerified u)"
proof (cases r)
  case (POST_auth_register d)
  then show ?thesis using register_users [of e s d] by (auto simp: handle_state)
qed (auto simp: handle_state login_ident logout_frame refreshToken_frame
      changePassword_frame changeUserRole_frame split: option.splits)

lemma handle_refreshTokens:
  "refreshTokens (snd (handle e s r)) t = Some u \<Longrightarrow>
     refreshTokens s t = Some u \<or> (length t = 64 \<and> u \<in> ID ` set (users s))"
  by (cases r)
    (auto simp: handle_state register_frame changePassword_frame changeUserRole_frame
       dest: login_refreshTokens logout_frame(3) refreshToken_refreshTokens
       split: option.splits if_splits)

text \<open>
  A string that is no refresh token of the store becomes one only when the random source
  yields it.
\<close>

lemma generateTokens_keeps_None:
  "refreshTokens s t = None \<Longrightarrow> generateRandomToken e \<noteq> Some t \<Longrightarrow>
     refreshTokens (snd (generateTokens e s uid n r)) t = None"
  by (auto simp: generateTokens_def Let_def split: option.splits)

lemma login_keeps_None:
  "refreshTokens s t = None \<Longrightarrow> generateRandomToken e \<noteq> Some t \<Longrightarrow>
     refreshTokens (snd (login e s d)) t = None"
  by (simp add: login_state generateTokens_keeps_None split: option.splits)

lemma refreshToken_keeps_None:
  "refreshTokens s t = None \<Longrightarrow> generateRandomToken e \<noteq> Some t \<Longrightarrow>
     refreshTokens (snd (refreshToken e s d)) t = None"
  by (simp add: refreshToken_state generateTokens_keeps_None split: sum.splits)

lemma handle_keeps_None:
  "refreshTokens s t = None \<Longrightarrow> generateRandomToken e \<noteq> Some t \<Longrightarrow>
     refreshTokens (snd (handle e s r)) t = None"
  by (cases r)
    (auto simp: handle_state register_frame changePassword_frame changeUserRole_frame
       login_keeps_None refreshToken_keeps_None logout_state split: option.splits)

lemma run_keeps_None:
  "refreshTokens s t = None \<Longrightarrow>
     list_all (\<lambda>call. generateRandomToken (fst call) \<noteq> Some t) calls \<Longrightarrow>
     refreshTokens (run s calls) t = None"
  by (induction calls arbitrary: s) (auto simp: handle_keeps_None)

lemma refreshToken_unknown:
  "t \<noteq> [] \<Longrightarrow> refreshTokens s t = None \<Longrightarrow>
     refreshToken e s (Some t) = (failure 401 ''Invalid or expired refresh token'', s)"
  by (simp add: refreshToken_def refreshToken_lookup_def bind_RefreshRequest_def required_def)

lemma register_result:
  "(status (fst (register e s d)) \<noteq> 201 \<and> snd (register e s d) = s) \<or>
   (\<exists>req h u. bind_RegisterRequest e d = Some req
      \<and> bcrypt_GenerateFromPassword e (reg_Password req) bcrypt_DefaultCost = Some h
      \<and> register e s d = (success 201 (UserData u) ''User registered successfully'',
            s\<lparr>users := users s @ [u], nextUserID := go_int (nextUserID s + 1)\<rparr>)
      \<and> ID u = nextUserID s \<and> Username u = reg_Username req \<and> Email u = reg_Email req
      \<and> PasswordHash u = h
      \<and> Role u = ''user'' \<and> IsActive u \<and> \<not> EmailVerified u)"
  by (auto simp: register_unfold Let_def failure_def success_def split: option.splits)

lemma handle_roles:
  "(\<exists>h p d. r = PUT_admin_users_role h p d)
   \<or> map Role (users (snd (handle e s r))) = map Role (users s)
   \<or> map Role (users (snd (handle e s r))) = map Role (users s) @ [''user'']"
proof (cases r)
  case (POST_auth_register d)
  then show ?thesis using register_result [of e s d] by (auto simp: handle_state)
qed (auto simp: handle_state login_roles logout_frame refreshToken_frame
      changePassword_frame split: option.splits)

lemma main_users:
  "\<exists>h c u. users (main e) =
     [\<lparr>ID = 1, Username = ''admin'', Email = ''admin@example.com'', Password = [],
       PasswordHash = h, FirstName = ''Admin'', LastName = ''User'', Role = RoleAdmin,
       IsActive = True, EmailVerified = True, LastLogin = None, FailedAttempts = 0,
       LockedUntil = None, CreatedAt = c, UpdatedAt = u\<rparr>]"
  "refreshTokens (main e) = Map.empty" "blacklistedTokens (main e) = Map.empty"
  by (simp_all add: main_def initial_def Let_def)

lemma handle_unique_users: "unique_users s \<Longrightarrow> unique_users (snd (handle e s r))"
  using handle_users [of e s r] unfolding unique_users_def
  by (auto dest: ident_maps)

lemma main_unique_users: "unique_users (main e)"
  using main_users(1) [of e] by (auto simp: unique_users_def)

lemma run_unique_users: "unique_users s \<Longrightarrow> unique_users (run s calls)"
  by (induction calls arbitrary: s) (auto simp: handle_unique_users)

lemma handle_tokens_ok:
  assumes "tokens_ok s"
  shows "tokens_ok (snd (handle e s r))"
proof -
  let ?s' = "snd (handle e s r)"
  have ids: "ID ` set (users s) \<subseteq> ID ` set (users ?s')"
    and act: "\<forall>u\<in>set (users ?s'). IsActive u"
  proof -
    from handle_users [of e s r]
    consider "map ident (users ?s') = map ident (users s)"
      | u where "users ?s' = users s @ [u]" "IsActive u"
      by blast
    then have "ID ` set (users s) \<subseteq> ID ` set (users ?s') \<and> (\<forall>u\<in>set (users ?s'). IsActive u)"
    proof cases
      case 1
      then have "map ID (users ?s') = map ID (users s)"
        "map IsActive (users ?s') = map IsActive (users s)"
        by (auto dest: ident_maps)
      then have "ID ` set (users ?s') = ID ` set (users s)"
        "IsActive ` set (users ?s') = IsActive ` set (users s)"
        by (metis image_set)+
      with assms show ?thesis
        by (auto simp: tokens_ok_def)
    next
      case 2
      with assms show ?thesis by (auto simp: tokens_ok_def)
    qed
    then show "ID ` set (users s) \<subseteq> ID ` set (users ?s')" "\<forall>u\<in>set (users ?s'). IsActive u"
      by simp_all
  qed
  have "t \<noteq> [] \<and> uid \<in> ID ` set (users ?s')" if "refreshTokens ?s' t = Some uid" for t uid
    using handle_refreshTokens [OF that] assms ids by (auto simp: tokens_ok_def)
  with act show ?thesis
    by (simp add: tokens_ok_def)
qed

lemma main_tokens_ok: "tokens_ok (main e)"
  using main_users [of e] by (auto simp: tokens_ok_def)

lemma run_tokens_ok: "tokens_ok s \<Longrightarrow> tokens_ok (run s calls)"
  by (induction calls arbitrary: s) (auto simp: handle_tokens_ok)

lemma tokens_ok_lookup:
  assumes "tokens_ok s" "refreshTokens s t = Some uid"
  shows "\<exists>i. refreshToken_lookup s (Some t) = Inr (t, i) \<and> ID (users s ! i) = uid"
proof -
  from assms have t: "t \<noteq> []" and "uid \<in> ID ` set (users s)"
    by (auto simp: tokens_ok_def)
  then have "\<exists>u\<in>set (users s). ID u = uid"
    by auto
  then obtain i where i: "findUserByID s uid = Some i"
    using first_index_None [of "\<lambda>user. ID user = uid" "users s"]
    by (cases "findUserByID s uid") (auto simp: findUserByID_def)
  then have "i < length (users s)" "ID (users s ! i) = uid"
    by (auto dest: findUserByID_Some)
  moreover from this assms have "IsActive (users s ! i)"
    by (auto simp: tokens_ok_def)
  ultimately show ?thesis
    using t i assms(2)
    by (simp add: refreshToken_lookup_def bind_RefreshRequest_def required_def)
qed

subsection \<open>Users of the states the program reaches\<close>

lemma first_index_distinct:
  "distinct (map f xs) \<Longrightarrow> i < length xs \<Longrightarrow> first_index (\<lambda>x. f x = f (xs ! i)) xs = Some i"
proof (induction xs arbitrary: i)
  case Nil
  then show ?case by simp
next
  case (Cons x xs)
  show ?case
  proof (cases i)
    case 0
    then show ?thesis by simp
  next
    case (Suc j)
    with Cons.prems have "j < length xs" "f (xs ! j) \<in> f ` set xs" "f x \<notin> f ` set xs"
      by auto
    then have "f x \<noteq> f (xs ! j)" by metis
    with Cons Suc show ?thesis by simp
  qed
qed

lemma handle_named_users: "named_users s \<Longrightarrow> named_users (snd (handle e s r))"
proof -
  assume inv: "named_users s"
  from handle_users [of e s r]
  consider "map ident (users (snd (handle e s r))) = map ident (users s)"
    | d u where "r = POST_auth_register d" "users (snd (handle e s r)) = users s @ [u]"
    by blast
  then show ?thesis
  proof cases
    case 1
    then have "map Username (users (snd (handle e s r))) = map Username (users s)"
      by (rule ident_maps)
    with inv show ?thesis
      by (simp add: named_users_def)
  next
    case 2
    with register_result [of e s d] have "\<exists>req. bind_RegisterRequest e d = Some req
        \<and> Username u = reg_Username req"
      by (auto simp: handle_state)
    then have "Username u \<noteq> []"
      by (auto simp: bind_RegisterRequest_def required_def split: option.splits if_splits)
    with 2 inv show ?thesis
      by (auto simp: named_users_def)
  qed
qed

lemma run_named_users: "named_users s \<Longrightarrow> named_users (run s calls)"
  by (induction calls arbitrary: s) (auto simp: handle_named_users)

lemma main_named_users: "named_users (main e)"
  using main_users(1) [of e] by (auto simp: named_users_def)

text \<open>In a state the program reaches, every user is the one its username finds.\<close>

lemma every_user_found:
  assumes "i < length (users (run (main e0) calls))"
  shows "findUserByUsername (run (main e0) calls) (Username (users (run (main e0) calls) ! i))
     = Some i"
proof -
  let ?s = "run (main e0) calls"
  have "unique_users ?s" "named_users ?s"
    by (simp_all add: run_unique_users main_unique_users run_named_users main_named_users)
  then have "distinct (map Username (users ?s))" "Username (users ?s ! i) \<noteq> []"
    using assms by (auto simp: unique_users_def named_users_def)
      (metis imageI nth_mem)
  with assms show ?thesis
    by (simp add: findUserByUsername_def first_index_distinct)
qed

lemma run_all_active: "list_all IsActive (users (run (main e0) calls))"
  using run_tokens_ok [OF main_tokens_ok, of e0 calls]
  by (simp add: tokens_ok_def list_all_iff)

subsection \<open>Counted login attempts\<close>



lemma wrong_password_attempt_FailedAttempts [simp]:
  "wrong_password_attempt name (user\<lparr>FailedAttempts := c\<rparr>) call
     = wrong_password_attempt name user call"
  by (simp add: wrong_password_attempt_def isAccountLocked_def cong: option.case_cong)








subsection \<open>The sample environment at work\<close>

lemma test_env_simps:
  "time_Now (test_env now c) site = now"
  "bcrypt_GenerateFromPassword (test_env now c) password cost
     = (if 72 < length password then None else Some (''$2a$'' @ decimal2 cost @ ''$'' @ password))"
  "bcrypt_CompareHashAndPassword (test_env now c) hash password \<longleftrightarrow> drop 7 hash = password"
  "jwt_NewNumericDate (test_env now c) t = t - t mod Second"
  "jwt_SignedString (test_env now c) key claims = Some (''signed.'' @ claims_Username claims)"
  "rand_Read (test_env now c) = Some (\<lambda>i. c)"
  "validator_email (test_env now c) v \<longleftrightarrow> CHR ''@'' \<in> set v"
  by (simp_all add: test_env_def)

lemma decimal2_simps: "decimal2 10 = ''10''" "decimal2 12 = ''12''"
  by (simp_all add: decimal2_def hexdigit_def)

lemma started_eq:
  "started =
    \<lparr>users = [\<lparr>ID = 1, Username = ''admin'', Email = ''admin@example.com'', Password = [],
       PasswordHash = ''$2a$12$admin123'', FirstName = ''Admin'', LastName = ''User'',
       Role = ''admin'', IsActive = True, EmailVerified = True, LastLogin = None,
       FailedAttempts = 0, LockedUntil = None, CreatedAt = 0, UpdatedAt = 0\<rparr>],
     blacklistedTokens = Map.empty, refreshTokens = Map.empty, nextUserID = 2\<rparr>"
  by (simp add: started_def main_def initial_def Let_def hashPassword_def test_env_simps
      decimal2_simps RoleAdmin_def go_int_def)

lemma started_fields:
  "users started = [\<lparr>ID = 1, Username = ''admin'', Email = ''admin@example.com'', Password = [],
       PasswordHash = ''$2a$12$admin123'', FirstName = ''Admin'', LastName = ''User'',
       Role = ''admin'', IsActive = True, EmailVerified = True, LastLogin = None,
       FailedAttempts = 0, LockedUntil = None, CreatedAt = 0, UpdatedAt = 0\<rparr>]"
  "blacklistedTokens started = Map.empty" "refreshTokens started = Map.empty"
  "nextUserID started = 2"
  by (simp_all add: started_eq)

lemma rune_counts:
  "RuneCountInString ''alice'' = 5" "RuneCountInString ''Abcdef1!'' = 8"
  "RuneCountInString ''Alice'' = 5" "RuneCountInString ''Liddell'' = 7"
  "RuneCountInString ''admin123'' = 8" "RuneCountInString ''letmein!!'' = 9"
  by (simp_all add: RuneCountInString_def runes.simps DecodeRuneInString_def)

lemma strong_sample: "isStrongPassword ''Abcdef1!''"
  by (simp add: isStrongPassword_def runes.simps DecodeRuneInString_def classify_def)

lemma alice_bound:
  "bind_RegisterRequest (test_env now c) alice
     = Some \<lparr>reg_Username = ''alice'', reg_Email = ''alice@x.com'',
              reg_Password = ''Abcdef1!'', reg_ConfirmPassword = ''Abcdef1!'',
              reg_FirstName = ''Alice'', reg_LastName = ''Liddell''\<rparr>"
  by (simp add: alice_def alice_req_def bind_RegisterRequest_def required_def rune_counts
      test_env_simps)

lemma register_alice:
  "register (test_env 0 CHR ''a'') started alice =
    (success 201 (UserData
       \<lparr>ID = 2, Username = ''alice'', Email = ''alice@x.com'', Password = [],
        PasswordHash = ''$2a$10$Abcdef1!'', FirstName = ''Alice'', LastName = ''Liddell'',
        Role = ''user'', IsActive = True, EmailVerified = False, LastLogin = None,
        FailedAttempts = 0, LockedUntil = None, CreatedAt = 0, UpdatedAt = 0\<rparr>)
       ''User registered successfully'',
     started\<lparr>users := users started @
       [\<lparr>ID = 2, Username = ''alice'', Email = ''alice@x.com'', Password = [],
        PasswordHash = ''$2a$10$Abcdef1!'', FirstName = ''Alice'', LastName = ''Liddell'',
        Role = ''user'', IsActive = True, EmailVerified = False, LastLogin = None,
        FailedAttempts = 0, LockedUntil = None, CreatedAt = 0, UpdatedAt = 0\<rparr>],
       nextUserID := 3\<rparr>)"
  by (simp add: register_unfold alice_def alice_req_def bind_RegisterRequest_def required_def
      rune_counts
      strong_sample findUserByUsername_def findUserByEmail_def started_eq test_env_simps
      bcrypt_DefaultCost_def decimal2_simps go_int_def Let_def)

lemma more_rune_counts:
  "RuneCountInString ''admin'' = 5" "RuneCountInString ''password'' = 8"
  "RuneCountInString ''Admin'' = 5" "RuneCountInString ''User'' = 4"
  "RuneCountInString ''bob'' = 3" "RuneCountInString ''Bob'' = 3"
  "RuneCountInString ''Builder'' = 7" "RuneCountInString long_password = 73"
  by (simp_all add: RuneCountInString_def runes_ascii long_password_def list_all_iff)

lemma long_password_strong:
  "isStrongPassword long_password" "length long_password = 73" "long_password \<noteq> []"
  by (simp_all add: isStrongPassword_len runes_ascii long_password_def list_all_iff
      is_alnum_def is_upper_def is_lower_def is_digit_def)

lemma weak_sample: "\<not> isStrongPassword ''password''"
  by (simp add: isStrongPassword_def runes_ascii classify_def)

lemma alice_checked: "register_check (test_env now c) started alice = Inr alice_req"
  using alice_bound [of now c] strong_sample
  by (simp add: register_check_def alice_req_def findUserByUsername_def findUserByEmail_def
      started_fields)

lemma alice_inserted:
  "register_insert (test_env now c) s alice_req =
    (success 201 (UserData
       \<lparr>ID = nextUserID s, Username = ''alice'', Email = ''alice@x.com'', Password = [],
        PasswordHash = ''$2a$10$Abcdef1!'', FirstName = ''Alice'', LastName = ''Liddell'',
        Role = ''user'', IsActive = True, EmailVerified = False, LastLogin = None,
        FailedAttempts = 0, LockedUntil = None, CreatedAt = now, UpdatedAt = now\<rparr>)
       ''User registered successfully'',
     s\<lparr>users := users s @
       [\<lparr>ID = nextUserID s, Username = ''alice'', Email = ''alice@x.com'', Password = [],
        PasswordHash = ''$2a$10$Abcdef1!'', FirstName = ''Alice'', LastName = ''Liddell'',
        Role = ''user'', IsActive = True, EmailVerified = False, LastLogin = None,
        FailedAttempts = 0, LockedUntil = None, CreatedAt = now, UpdatedAt = now\<rparr>],
       nextUserID := go_int (nextUserID s + 1)\<rparr>)"
  by (simp add: register_insert_def alice_req_def test_env_simps bcrypt_DefaultCost_def
      decimal2_simps Let_def)

lemma generateRandomToken_test:
  "generateRandomToken (test_env now c) = Some (hex_EncodeToString (replicate 32 c))"
  by (simp add: generateRandomToken_def test_env_simps map_replicate_const)

lemma generateTokens_test:
  "generateTokens (test_env now c) s uid name role =
    (Some \<lparr>AccessToken = ''signed.'' @ name, RefreshToken = hex_EncodeToString (replicate 32 c),
        TokenType = ''Bearer'', ExpiresIn = 900, ExpiresAt = now + 900000000000\<rparr>,
     s\<lparr>refreshTokens := (refreshTokens s)(hex_EncodeToString (replicate 32 c) \<mapsto> uid)\<rparr>)"
  by (simp add: generateTokens_def generateRandomToken_test test_env_simps Let_def
      accessTokenTTL_def Minute_def Second_def)

lemma bind_admin_login:
  "bind_LoginRequest admin_login = Some \<lparr>login_Username = ''admin'', login_Password = ''admin123''\<rparr>"
  by (simp add: admin_login_def bind_LoginRequest_def required_def rune_counts)

lemma find_admin: "findUserByUsername started ''admin'' = Some 0"
  by (simp add: findUserByUsername_def started_eq)

lemma login_admin:
  "login (test_env 0 CHR ''a'') started admin_login =
    (success 200 (TokenData \<lparr>AccessToken = ''signed.admin'', RefreshToken = token_a,
        TokenType = ''Bearer'', ExpiresIn = 900, ExpiresAt = 900000000000\<rparr>) ''Login successful'',
     started\<lparr>users := [(users started ! 0)\<lparr>LastLogin := Some 0\<rparr>],
             refreshTokens := [token_a \<mapsto> 1]\<rparr>)"
  by (simp add: login_def bind_admin_login find_admin isAccountLocked_def verifyPassword_def
      resetFailedAttempts_def generateTokens_test token_a_def started_fields Let_def
      test_env_simps)

lemma tokens_differ: "token_b \<noteq> token_a" "token_c \<noteq> token_a" "token_c \<noteq> token_b"
  by code_simp+

lemma token_nonempty: "token_a \<noteq> []" "token_b \<noteq> []"
  by code_simp+

lemma logged_in_eq:
  "logged_in = started\<lparr>users := [(users started ! 0)\<lparr>LastLogin := Some 0\<rparr>],
                       refreshTokens := [token_a \<mapsto> 1]\<rparr>"
  by (simp add: logged_in_def login_admin)

lemma logged_in_fields:
  "users logged_in = [\<lparr>ID = 1, Username = ''admin'', Email = ''admin@example.com'', Password = [],
       PasswordHash = ''$2a$12$admin123'', FirstName = ''Admin'', LastName = ''User'',
       Role = ''admin'', IsActive = True, EmailVerified = True, LastLogin = Some 0,
       FailedAttempts = 0, LockedUntil = None, CreatedAt = 0, UpdatedAt = 0\<rparr>]"
  "blacklistedTokens logged_in = Map.empty" "refreshTokens logged_in = [token_a \<mapsto> 1]"
  "nextUserID logged_in = 2"
  by (simp_all add: logged_in_eq started_fields)

lemma run_login_admin:
  "run (main (test_env 0 CHR ''a'')) [(test_env 0 CHR ''a'', POST_auth_login admin_login)] = logged_in"
  by (simp add: handle_state logged_in_def started_def)

section \<open>The claims\<close>

subsection \<open>Password strength\<close>

text \<open>
  C8, as amended. \<open>isStrongPassword\<close> is a function of the password alone (it takes and
  returns no state). Its classes of letters and digits are the ASCII ranges \<open>A\<close>..\<open>Z\<close>,
  \<open>a\<close>..\<open>z\<close> and \<open>0\<close>..\<open>9\<close>; every other character, a letter or a digit outside
  ASCII too, counts as the special character. Take a password that has at least 8 characters
  whenever it has at least 8 bytes (every password of ASCII characters is one, and so is
  every password of at least 8 characters). For it the function holds exactly when the
  password has at least 8 characters and, among them, one of \<open>A\<close>..\<open>Z\<close>, one of
  \<open>a\<close>..\<open>z\<close>, one of \<open>0\<close>..\<open>9\<close> and one that is none of these. Nothing is said of
  a password that has fewer than 8 characters in 8 bytes or more.
\<close>

theorem isStrongPassword_iff:
  assumes "8 \<le> length p \<Longrightarrow> 8 \<le> RuneCountInString p"
  shows "isStrongPassword p \<longleftrightarrow>
     8 \<le> RuneCountInString p
     \<and> (\<exists>c\<in>set (runes p). is_upper c) \<and> (\<exists>c\<in>set (runes p). is_lower c)
     \<and> (\<exists>c\<in>set (runes p). is_digit c) \<and> (\<exists>c\<in>set (runes p). \<not> is_alnum c)"
  using assms runes_length_le [of p] unfolding isStrongPassword_len RuneCountInString_def
  by auto

theorem isStrongPassword_iff_witness:
  "RuneCountInString ''Abcdef1!'' = 8 \<and> isStrongPassword ''Abcdef1!''
   \<and> RuneCountInString ''Abcdef12'' = 8 \<and> \<not> isStrongPassword ''Abcdef12''
   \<and> RuneCountInString ''Ab1!'' = 4 \<and> length ''Ab1!'' < 8 \<and> \<not> isStrongPassword ''Ab1!''
   \<and> RuneCountInString (''Abcdef1'' @ e_acute) = 8 \<and> isStrongPassword (''Abcdef1'' @ e_acute)"
proof -
  have counts: "RuneCountInString ''Abcdef1!'' = 8" "RuneCountInString ''Abcdef12'' = 8"
    "RuneCountInString ''Ab1!'' = 4" "RuneCountInString (''Abcdef1'' @ e_acute) = 8"
    by (simp_all add: RuneCountInString_def runes.simps DecodeRuneInString_def e_acute_def)
  from counts isStrongPassword_iff [of "''Abcdef1!''"] isStrongPassword_iff [of "''Abcdef12''"]
    isStrongPassword_iff [of "''Ab1!''"] isStrongPassword_iff [of "''Abcdef1'' @ e_acute"]
  show ?thesis
    by (simp add: runes.simps DecodeRuneInString_def e_acute_def
        is_alnum_def is_upper_def is_lower_def is_digit_def)
qed

text \<open>
  C8, as stated, fails on passwords with a character outside ASCII, in three ways. The
  password \<open>Abcde1\<close> with \<open>U+00E9\<close> after it has 7 characters (in 8 bytes) and is
  accepted. The password \<open>Abcdefg1\<close> with \<open>U+00E9\<close> after it is accepted although each
  of its 9 characters is a letter or a digit: the letter \<open>U+00E9\<close> is taken for the
  special character. The password \<open>bcdefg1!\<close> with \<open>U+00C0\<close> before it has 9
  characters, among them an uppercase letter, lowercase letters, a digit and \<open>!\<close>, and is
  rejected: \<open>U+00C0\<close> is not in \<open>A\<close>..\<open>Z\<close>.
\<close>

theorem isStrongPassword_beyond_ascii:
  "RuneCountInString (''Abcde1'' @ e_acute) = 7
   \<and> isStrongPassword (''Abcde1'' @ e_acute)
   \<and> runes (''Abcdefg1'' @ e_acute) = map of_char ''Abcdefg1'' @ [0xE9]
   \<and> isStrongPassword (''Abcdefg1'' @ e_acute)
   \<and> runes (A_grave @ ''bcdefg1!'') = 0xC0 # map of_char ''bcdefg1!''
   \<and> \<not> isStrongPassword (A_grave @ ''bcdefg1!'')"
  by (simp add: RuneCountInString_def isStrongPassword_def runes.simps DecodeRuneInString_def
      e_acute_def A_grave_def classify_def Let_def)

subsection \<open>Logout and validation\<close>

text \<open>
  C9. \<open>logout\<close> has no access to the JWT library (it takes no environment). With a
  non-empty \<open>Authorization\<close> header it answers 200, and the string left after
  \<open>TrimPrefix\<close> is in the blacklist afterwards, whatever that string is; so every string
  \<open>x\<close> can be put there, by the header \<open>Bearer x\<close>.
\<close>

theorem logout_blacklists_any_string:
  assumes "authHeader \<noteq> []"
  shows "fst (logout s authHeader refresh_token) = success 200 NoData ''Logout successful''
     \<and> blacklistedTokens (snd (logout s authHeader refresh_token))
         = (blacklistedTokens s)(TrimPrefix authHeader ''Bearer '' \<mapsto> True)
     \<and> (\<forall>x. blacklisted (snd (logout s (''Bearer '' @ x) refresh_token)) x)"
  using assms by (simp add: logout_def Let_def TrimPrefix_def blacklisted_def)

theorem logout_blacklists_any_string_witness:
  "''not a token'' \<noteq> []
   \<and> validateToken (test_env 1 CHR ''a'') initial ''not a token''
       = Inl (ParseError ''token is malformed'')
   \<and> status (fst (logout initial ''not a token'' [])) = 200
   \<and> blacklisted (snd (logout initial ''not a token'' [])) ''not a token''
   \<and> blacklisted (snd (logout initial ''Bearer x.y.z'' [])) ''x.y.z''"
  using logout_blacklists_any_string [of "''not a token''" initial "[]"]
    logout_blacklists_any_string [of "''Bearer x.y.z''" initial "[]"]
  by (simp add: success_def blacklisted_def TrimPrefix_def validateToken_def initial_def
      test_env_def)

text \<open>
  C3. \<open>validateToken\<close> looks at the blacklist first: a blacklisted token gets the
  blacklist error whatever the JWT library would say about it. A token that is not
  blacklisted gets the library's error when parsing fails, the error \<open>invalid token\<close> when
  the parsed token is not valid, and its claims otherwise. After a \<open>logout\<close> with a
  non-empty header, and after any further requests, the token of that header gets the
  blacklist error in every environment.
\<close>

theorem validateToken_blacklist_first:
  "(blacklisted s t \<longrightarrow> validateToken e s t = Inl Blacklisted)
   \<and> (\<not> blacklisted s t \<and> jwt_ParseWithClaims e t jwtSecret = Inl err
        \<longrightarrow> validateToken e s t = Inl (ParseError err))
   \<and> (\<not> blacklisted s t \<and> jwt_ParseWithClaims e t jwtSecret = Inr (claims, False)
        \<longrightarrow> validateToken e s t = Inl InvalidToken)
   \<and> (\<not> blacklisted s t \<and> jwt_ParseWithClaims e t jwtSecret = Inr (claims, True)
        \<longrightarrow> validateToken e s t = Inr claims)
   \<and> (authHeader \<noteq> [] \<longrightarrow>
        (\<forall>calls e'. validateToken e' (run (snd (logout s authHeader refresh_token)) calls)
                      (TrimPrefix authHeader ''Bearer '') = Inl Blacklisted))"
proof -
  have "blacklisted (snd (logout s authHeader refresh_token)) (TrimPrefix authHeader ''Bearer '')"
    if "authHeader \<noteq> []"
    using that by (simp add: logout_state blacklisted_def)
  then have "blacklisted (run (snd (logout s authHeader refresh_token)) calls)
      (TrimPrefix authHeader ''Bearer '')" if "authHeader \<noteq> []" for calls
    using that by (simp add: run_blacklisted)
  then show ?thesis
    by (simp add: validateToken_def)
qed

theorem validateToken_blacklist_first_witness:
  "\<not> blacklisted started ''signed.admin''
   \<and> validateToken (test_env 1 CHR ''a'') started ''signed.admin''
       = Inr \<lparr>claims_UserID = 1, claims_Username = ''admin'', claims_Role = ''admin'',
              claims_ExpiresAt = None, claims_IssuedAt = None, claims_Issuer = ''your-app''\<rparr>
   \<and> validateToken (test_env 1 CHR ''a'') started ''garbage''
       = Inl (ParseError ''token is malformed'')
   \<and> validateToken
        ((test_env 1 CHR ''a'')\<lparr>jwt_ParseWithClaims := (\<lambda>token key. Inr (admin_claims, False))\<rparr>)
        started ''signed.admin''
       = Inl InvalidToken
   \<and> ''Bearer signed.admin'' \<noteq> []
   \<and> blacklisted (snd (logout started ''Bearer signed.admin'' [])) ''signed.admin''
   \<and> validateToken (test_env 2 CHR ''a'') (snd (logout started ''Bearer signed.admin'' []))
        ''signed.admin'' = Inl Blacklisted
   \<and> validateToken (test_env 9 CHR ''a'')
        (run (snd (logout started ''Bearer signed.admin'' []))
           [(test_env 5 CHR ''b'', POST_auth_login admin_login)])
        ''signed.admin'' = Inl Blacklisted"
proof -
  let ?e = "test_env 1 CHR ''a''"
  let ?claims = "\<lparr>claims_UserID = 1, claims_Username = ''admin'', claims_Role = ''admin'',
      claims_ExpiresAt = None, claims_IssuedAt = None, claims_Issuer = ''your-app''\<rparr>"
  let ?e' = "?e\<lparr>jwt_ParseWithClaims := (\<lambda>token key. Inr (admin_claims, False))\<rparr>"
  let ?out = "snd (logout started ''Bearer signed.admin'' [])"
  have clean: "\<not> blacklisted started t" for t
    by (simp add: blacklisted_def started_def main_def initial_def Let_def)
  have black: "blacklisted ?out ''signed.admin''"
    by (simp add: logout_def Let_def TrimPrefix_def blacklisted_def)
  have parse: "jwt_ParseWithClaims ?e ''signed.admin'' jwtSecret = Inr (?claims, True)"
    "jwt_ParseWithClaims ?e ''garbage'' jwtSecret = Inl ''token is malformed''"
    "jwt_ParseWithClaims ?e' ''signed.admin'' jwtSecret = Inr (?claims, False)"
    by (simp_all add: test_env_def admin_claims_def)
  show ?thesis
    using clean black parse
      validateToken_blacklist_first [of started "''signed.admin''" ?e _ ?claims
        "''Bearer signed.admin''" "[]"]
      validateToken_blacklist_first [of started "''garbage''" ?e "''token is malformed''"]
      validateToken_blacklist_first [of started "''signed.admin''" ?e' _ ?claims]
      validateToken_blacklist_first [of ?out "''signed.admin''" "test_env 2 CHR ''a''"]
    by (simp add: TrimPrefix_def del: run.simps)
qed

subsection \<open>Login failures\<close>

text \<open>
  C7. A login for a username that no user has and a login for a known username with a
  wrong password on an account that is not locked get the same response, status 401 with
  the error \<open>Invalid credentials\<close> and nothing else. For a known username with a wrong
  password the only other response is the 423 of a locked account.
\<close>

theorem login_uniform_failure:
  assumes "bind_LoginRequest d1 = Some req1"
    and "findUserByUsername s1 (login_Username req1) = None"
    and "bind_LoginRequest d2 = Some req2"
    and "findUserByUsername s2 (login_Username req2) = Some i"
    and "\<not> verifyPassword e2 (login_Password req2) (PasswordHash (users s2 ! i))"
  shows "fst (login e1 s1 d1) = failure 401 ''Invalid credentials''
    \<and> fst (login e2 s2 d2) =
         (if isAccountLocked e2 (users s2 ! i) then failure 423 ''Account is temporarily locked''
          else failure 401 ''Invalid credentials'')
    \<and> (\<not> isAccountLocked e2 (users s2 ! i) \<longrightarrow> fst (login e1 s1 d1) = fst (login e2 s2 d2))"
  using assms by (simp add: login_def Let_def)

theorem login_uniform_failure_witness:
  "findUserByUsername started ''nobody'' = None
   \<and> findUserByUsername started ''admin'' = Some 0
   \<and> \<not> verifyPassword (test_env 7 CHR ''a'') ''letmein!!'' (PasswordHash (users started ! 0))
   \<and> \<not> isAccountLocked (test_env 7 CHR ''a'') (users started ! 0)
   \<and> fst (login (test_env 3 CHR ''a'') started
            (Some \<lparr>login_Username = ''nobody'', login_Password = ''letmein!!''\<rparr>))
       = failure 401 ''Invalid credentials''
   \<and> fst (login (test_env 7 CHR ''a'') started wrong_login) = failure 401 ''Invalid credentials''"
proof -
  let ?nobody = "\<lparr>login_Username = ''nobody'', login_Password = ''letmein!!''\<rparr>"
  let ?wrong = "\<lparr>login_Username = ''admin'', login_Password = ''letmein!!''\<rparr>"
  have nine: "RuneCountInString ''letmein!!'' = 9"
    by (simp add: RuneCountInString_def runes.simps DecodeRuneInString_def)
  have bind: "bind_LoginRequest (Some ?nobody) = Some ?nobody"
    "bind_LoginRequest wrong_login = Some ?wrong"
    by (simp_all add: bind_LoginRequest_def required_def nine wrong_login_def)
  have find: "findUserByUsername started ''nobody'' = None"
    "findUserByUsername started ''admin'' = Some 0"
    by (simp_all add: findUserByUsername_def started_def main_def initial_def Let_def)
  have wrong: "\<not> verifyPassword (test_env 7 CHR ''a'') ''letmein!!''
      (PasswordHash (users started ! 0))"
    and free: "\<not> isAccountLocked (test_env 7 CHR ''a'') (users started ! 0)"
    by (simp_all add: verifyPassword_def isAccountLocked_def hashPassword_def test_env_def
        decimal2_def hexdigit_def started_def main_def initial_def Let_def)
  from login_uniform_failure [of "Some ?nobody" ?nobody started wrong_login ?wrong started 0
      "test_env 7 CHR ''a''" "test_env 3 CHR ''a''"] bind find wrong free
  show ?thesis by simp
qed

subsection \<open>Registration\<close>

text \<open>
  C10. A registration that answers 201 appends one record, the one it returns, with role
  \<open>user\<close> (so neither \<open>admin\<close> nor \<open>moderator\<close>), active and with the email not verified;
  a registration that answers anything else leaves the stores as they were. No request
  other than \<open>PUT /admin/users/:id/role\<close> changes the role of a stored user or adds a
  user with another role than \<open>user\<close>.
\<close>

theorem register_role_user:
  "(status (fst (register e s d)) = 201 \<longrightarrow>
      (\<exists>u. users (snd (register e s d)) = users s @ [u]
         \<and> body (fst (register e s d)) =
             \<lparr>Success = True, Data = UserData u, Message = ''User registered successfully'',
              Error = []\<rparr>
         \<and> Role u = RoleUser \<and> Role u \<noteq> RoleAdmin \<and> Role u \<noteq> RoleModerator
         \<and> IsActive u \<and> \<not> EmailVerified u))
   \<and> (status (fst (register e s d)) \<noteq> 201 \<longrightarrow> snd (register e s d) = s)
   \<and> ((\<forall>h p b. r \<noteq> PUT_admin_users_role h p b) \<longrightarrow>
        map Role (users (snd (handle e s r))) = map Role (users s)
        \<or> map Role (users (snd (handle e s r))) = map Role (users s) @ [RoleUser])"
  using register_result [of e s d] handle_roles [of r e s]
  by (auto simp: success_def RoleUser_def RoleAdmin_def RoleModerator_def)

theorem register_role_user_witness:
  "status (fst (register (test_env 0 CHR ''a'') started alice)) = 201
   \<and> Role (last (users (snd (register (test_env 0 CHR ''a'') started alice)))) = ''user''
   \<and> IsActive (last (users (snd (register (test_env 0 CHR ''a'') started alice))))
   \<and> \<not> EmailVerified (last (users (snd (register (test_env 0 CHR ''a'') started alice))))
   \<and> status (fst (register (test_env 0 CHR ''a'') started None)) \<noteq> 201
   \<and> snd (register (test_env 0 CHR ''a'') started None) = started
   \<and> map Role (users (snd (handle (test_env 0 CHR ''a'') started (POST_auth_register alice))))
        = map Role (users started) @ [RoleUser]"
proof -
  have first: "status (fst (register (test_env 0 CHR ''a'') started alice)) = 201"
    by (simp add: register_alice success_def)
  have none: "status (fst (register (test_env 0 CHR ''a'') started None)) \<noteq> 201"
    by (simp add: register_unfold bind_RegisterRequest_def failure_def)
  have len: "length (users (snd (handle (test_env 0 CHR ''a'') started (POST_auth_register alice))))
      \<noteq> length (users started)"
    by (simp add: handle_state register_alice)
  from register_role_user [of "test_env 0 CHR ''a''" started alice "POST_auth_register alice"]
    register_role_user [of "test_env 0 CHR ''a''" started None "POST_auth_register alice"]
    first none len
  show ?thesis
    by (auto simp: RoleUser_def dest: arg_cong [where f = length])
qed

text \<open>
  C6, as amended. Requests are handled one after the other. A registration whose body does
  not pass the binding, or whose password is not confirmed or not strong, gets a 400 and
  leaves the stores as they were, also when its username or email is taken. A registration
  that passes these checks gets the conflict error 409, and leaves the stores as they were,
  whenever a stored user has the requested username or the requested email. Otherwise it
  appends exactly one record, with that username and email, when bcrypt makes the hash, and
  gets a 500 and appends nothing when bcrypt fails. No registration adds more than one
  record. In every state that the program reaches from its start by handling requests one
  after the other, no two users share a username and no two share an email (all of them
  are active).
\<close>

theorem register_keeps_users_unique:
  "(bind_RegisterRequest e d = None
      \<or> (\<exists>req. bind_RegisterRequest e d = Some req
            \<and> (reg_Password req \<noteq> reg_ConfirmPassword req
                 \<or> \<not> isStrongPassword (reg_Password req)))
      \<longrightarrow> status (fst (register e s d)) = 400 \<and> snd (register e s d) = s)
   \<and> (bind_RegisterRequest e d = Some req \<and> reg_Password req = reg_ConfirmPassword req
      \<and> isStrongPassword (reg_Password req) \<longrightarrow>
      (if reg_Username req \<in> Username ` set (users s) \<or> reg_Email req \<in> Email ` set (users s)
       then register e s d = (failure 409 ''Username or email is already taken'', s)
       else case bcrypt_GenerateFromPassword e (reg_Password req) bcrypt_DefaultCost of
              None \<Rightarrow> register e s d = (failure 500 ''Failed to hash password'', s)
            | Some h \<Rightarrow>
               (\<exists>u. register e s d
                      = (success 201 (UserData u) ''User registered successfully'',
                         s\<lparr>users := users s @ [u], nextUserID := go_int (nextUserID s + 1)\<rparr>)
                    \<and> Username u = reg_Username req \<and> Email u = reg_Email req)))
   \<and> (users (snd (register e s d)) = users s
        \<or> (\<exists>u. users (snd (register e s d)) = users s @ [u]))
   \<and> unique_users (run (main e0) calls)
   \<and> list_all IsActive (users (run (main e0) calls))"
proof -
  have "findUserByUsername s (reg_Username req) \<noteq> None
      \<longleftrightarrow> reg_Username req \<in> Username ` set (users s)"
    and "findUserByEmail s (reg_Email req) \<noteq> None \<longleftrightarrow> reg_Email req \<in> Email ` set (users s)"
    if "bind_RegisterRequest e d = Some req"
  proof -
    from that have "reg_Username req \<noteq> []" "reg_Email req \<noteq> []"
      by (auto simp: bind_RegisterRequest_def required_def split: option.splits if_splits)
    then show "findUserByUsername s (reg_Username req) \<noteq> None
        \<longleftrightarrow> reg_Username req \<in> Username ` set (users s)"
      and "findUserByEmail s (reg_Email req) \<noteq> None \<longleftrightarrow> reg_Email req \<in> Email ` set (users s)"
      by (auto simp: findUserByUsername_def findUserByEmail_def first_index_None image_iff)
        metis+
  qed
  then have "bind_RegisterRequest e d = Some req \<and> reg_Password req = reg_ConfirmPassword req
      \<and> isStrongPassword (reg_Password req) \<longrightarrow>
      (if reg_Username req \<in> Username ` set (users s) \<or> reg_Email req \<in> Email ` set (users s)
       then register e s d = (failure 409 ''Username or email is already taken'', s)
       else case bcrypt_GenerateFromPassword e (reg_Password req) bcrypt_DefaultCost of
              None \<Rightarrow> register e s d = (failure 500 ''Failed to hash password'', s)
            | Some h \<Rightarrow>
               (\<exists>u. register e s d
                      = (success 201 (UserData u) ''User registered successfully'',
                         s\<lparr>users := users s @ [u], nextUserID := go_int (nextUserID s + 1)\<rparr>)
                    \<and> Username u = reg_Username req \<and> Email u = reg_Email req))"
    by (auto simp: register_unfold Let_def split: option.splits)
  moreover have "bind_RegisterRequest e d = None
      \<or> (\<exists>req. bind_RegisterRequest e d = Some req
            \<and> (reg_Password req \<noteq> reg_ConfirmPassword req
                 \<or> \<not> isStrongPassword (reg_Password req)))
      \<longrightarrow> status (fst (register e s d)) = 400 \<and> snd (register e s d) = s"
    by (auto simp: register_unfold failure_def)
  moreover have "users (snd (register e s d)) = users s
      \<or> (\<exists>u. users (snd (register e s d)) = users s @ [u])"
    using register_users [of e s d] by blast
  moreover have "unique_users (run (main e0) calls)"
    by (simp add: run_unique_users main_unique_users)
  moreover have "list_all IsActive (users (run (main e0) calls))"
    by (rule run_all_active)
  ultimately show ?thesis by blast
qed

theorem register_keeps_users_unique_witness:
  "bind_RegisterRequest (test_env 0 CHR ''a'') alice \<noteq> None
   \<and> isStrongPassword ''Abcdef1!''
   \<and> ''alice'' \<notin> Username ` set (users started)
   \<and> ''alice@x.com'' \<notin> Email ` set (users started)
   \<and> status (fst (register (test_env 0 CHR ''a'') started alice)) = 201
   \<and> length (users (snd (register (test_env 0 CHR ''a'') started alice))) = 2
   \<and> ''alice'' \<in> Username ` set (users (snd (register (test_env 0 CHR ''a'') started alice)))
   \<and> register (test_env 1 CHR ''a'') (snd (register (test_env 0 CHR ''a'') started alice)) alice
       = (failure 409 ''Username or email is already taken'',
          snd (register (test_env 0 CHR ''a'') started alice))
   \<and> bind_RegisterRequest (test_env 0 CHR ''a'') second_admin \<noteq> None
   \<and> \<not> isStrongPassword ''password''
   \<and> status (fst (register (test_env 0 CHR ''a'') started second_admin)) = 400
   \<and> snd (register (test_env 0 CHR ''a'') started second_admin) = started
   \<and> unique_users (run (main (test_env 0 CHR ''a''))
        [(test_env 0 CHR ''a'', POST_auth_register alice),
         (test_env 1 CHR ''a'', POST_auth_register alice)])"
proof -
  let ?req = "\<lparr>reg_Username = ''alice'', reg_Email = ''alice@x.com'',
              reg_Password = ''Abcdef1!'', reg_ConfirmPassword = ''Abcdef1!'',
              reg_FirstName = ''Alice'', reg_LastName = ''Liddell''\<rparr>"
  let ?s1 = "snd (register (test_env 0 CHR ''a'') started alice)"
  have free: "''alice'' \<notin> Username ` set (users started)"
    "''alice@x.com'' \<notin> Email ` set (users started)"
    by (simp_all add: started_fields)
  have hash: "bcrypt_GenerateFromPassword (test_env 0 CHR ''a'') ''Abcdef1!'' bcrypt_DefaultCost
      = Some ''$2a$10$Abcdef1!''"
    by (simp add: test_env_simps bcrypt_DefaultCost_def decimal2_simps)
  have weak: "bind_RegisterRequest (test_env 0 CHR ''a'') second_admin
      = Some \<lparr>reg_Username = ''admin'', reg_Email = ''admin@example.com'',
                 reg_Password = ''password'', reg_ConfirmPassword = ''password'',
                 reg_FirstName = ''Admin'', reg_LastName = ''User''\<rparr>"
    "\<not> isStrongPassword ''password''"
    by (simp_all add: second_admin_def bind_RegisterRequest_def required_def more_rune_counts
        test_env_simps weak_sample)
  from register_keeps_users_unique [of "test_env 0 CHR ''a''" alice started ?req
      "test_env 0 CHR ''a''" "[]"]
    alice_bound [of 0 "CHR ''a''"] strong_sample free hash
  have first: "status (fst (register (test_env 0 CHR ''a'') started alice)) = 201"
    "length (users ?s1) = 2" "''alice'' \<in> Username ` set (users ?s1)"
    by (auto simp: success_def started_fields)
  from register_keeps_users_unique [of "test_env 0 CHR ''a''" second_admin started ?req
      "test_env 0 CHR ''a''" "[]"] weak
  have refused: "status (fst (register (test_env 0 CHR ''a'') started second_admin)) = 400"
    "snd (register (test_env 0 CHR ''a'') started second_admin) = started"
    by simp_all
  from register_keeps_users_unique [of "test_env 1 CHR ''a''" alice ?s1 ?req
      "test_env 0 CHR ''a''"
      "[(test_env 0 CHR ''a'', POST_auth_register alice),
        (test_env 1 CHR ''a'', POST_auth_register alice)]"]
    first free refused weak alice_bound [of 0 "CHR ''a''"] alice_bound [of 1 "CHR ''a''"]
    strong_sample
  show ?thesis by simp
qed

text \<open>
  C6, as stated, fails in three ways. The handler takes no lock between its test of the
  username and email and its \<open>append\<close>, and bcrypt runs in between: below, two
  registrations of \<open>alice\<close> each run \<open>register_check\<close> on the state \<open>started\<close>, before
  the other has written anything, and pass; then each runs \<open>register_insert\<close>. Both
  answer 201, and the store holds the username \<open>alice\<close> twice. A registration under the
  username and email of the administrator with a password that is not strong gets a 400,
  not the conflict error. A registration under a new username and email with a strong
  password of 73 bytes, which bcrypt refuses, gets a 500 and no record is added.
\<close>

theorem register_overlap_and_other_failures:
  "register_check (test_env 1 CHR ''a'') started alice = Inr alice_req
   \<and> register_check (test_env 2 CHR ''a'') started alice = Inr alice_req
   \<and> status (fst (register_insert (test_env 1 CHR ''a'') started alice_req)) = 201
   \<and> status (fst (register_insert (test_env 2 CHR ''a'')
          (snd (register_insert (test_env 1 CHR ''a'') started alice_req)) alice_req)) = 201
   \<and> map Username (users (snd (register_insert (test_env 2 CHR ''a'')
          (snd (register_insert (test_env 1 CHR ''a'') started alice_req)) alice_req)))
       = [''admin'', ''alice'', ''alice'']
   \<and> \<not> unique_users (snd (register_insert (test_env 2 CHR ''a'')
          (snd (register_insert (test_env 1 CHR ''a'') started alice_req)) alice_req))
   \<and> map Username (users started) = [''admin'']
   \<and> map Email (users started) = [''admin@example.com'']
   \<and> register (test_env 1 CHR ''a'') started second_admin
       = (failure 400 ''Password does not meet strength requirements'', started)
   \<and> register (test_env 1 CHR ''a'') started bob
       = (failure 500 ''Failed to hash password'', started)"
  by (simp add: alice_checked alice_inserted success_def started_fields unique_users_def
      register_unfold second_admin_def bob_def bind_RegisterRequest_def required_def
      more_rune_counts weak_sample long_password_strong test_env_simps
      findUserByUsername_def findUserByEmail_def)

subsection \<open>Lockout\<close>




subsection \<open>Refresh tokens\<close>

text \<open>
  C1, as amended. In a state that the program reaches by handling requests one after the
  other, take a refresh token \<open>t\<close> of the store. A refresh with \<open>t\<close>, in an environment
  where signing does not fail and the random source yields a token \<open>t'\<close> other than \<open>t\<close>,
  answers 200 with a pair whose refresh token is \<open>t'\<close>, removes \<open>t\<close> from the store and
  enters \<open>t'\<close> for the same user. Every refresh with \<open>t\<close> after it, in any environment,
  right after it or after any further requests handled one after the other in which the
  random source does not yield \<open>t\<close> again, gets the 401 \<open>Invalid or expired refresh
  token\<close> and changes nothing.
\<close>

theorem refresh_token_single_use:
  assumes "refreshTokens (run (main e0) calls) t = Some uid"
    and "\<forall>claims. jwt_SignedString e1 jwtSecret claims \<noteq> None"
    and "generateRandomToken e1 = Some t'"
    and "t' \<noteq> t"
  shows "\<exists>tokens.
      refreshToken e1 (run (main e0) calls) (Some t)
        = (success 200 (TokenData tokens) ''Token refreshed successfully'',
           rotated (run (main e0) calls) t t' uid)
      \<and> RefreshToken tokens = t'
      \<and> refreshTokens (rotated (run (main e0) calls) t t' uid) t = None
      \<and> refreshTokens (rotated (run (main e0) calls) t t' uid) t' = Some uid
      \<and> (\<forall>later e2.
            list_all (\<lambda>call. generateRandomToken (fst call) \<noteq> Some t) later \<longrightarrow>
            refreshToken e2 (run (rotated (run (main e0) calls) t t' uid) later) (Some t)
              = (failure 401 ''Invalid or expired refresh token'',
                 run (rotated (run (main e0) calls) t t' uid) later))"
proof -
  let ?s = "run (main e0) calls"
  have "tokens_ok ?s"
    by (simp add: run_tokens_ok main_tokens_ok)
  from tokens_ok_lookup [OF this assms(1)]
  obtain i where look: "refreshToken_lookup ?s (Some t) = Inr (t, i)" and i: "ID (users ?s ! i) = uid"
    by blast
  from look have "t \<noteq> []" by (auto dest: refreshToken_lookup_Inr)
  obtain a where a: "jwt_SignedString e1 jwtSecret
      \<lparr>claims_UserID = uid, claims_Username = Username (users ?s ! i),
       claims_Role = Role (users ?s ! i),
       claims_ExpiresAt = Some (jwt_NewNumericDate e1
          (time_Now e1 In_generateTokens_ExpiresAt + accessTokenTTL)),
       claims_IssuedAt = Some (jwt_NewNumericDate e1 (time_Now e1 In_generateTokens_IssuedAt)),
       claims_Issuer = ''your-app''\<rparr> = Some a"
    using assms(2) by blast
  let ?tokens = "\<lparr>AccessToken = a, RefreshToken = t', TokenType = ''Bearer'',
      ExpiresIn = accessTokenTTL div Second,
      ExpiresAt = time_Now e1 In_generateTokens_response + accessTokenTTL\<rparr>"
  have "refreshToken e1 ?s (Some t) = refreshToken_rotate e1 ?s (t, i)"
    using look by (simp add: refreshToken_def)
  also have "\<dots> = (success 200 (TokenData ?tokens) ''Token refreshed successfully'',
      rotated ?s t t' uid)"
    using i a assms(3)
    by (simp add: refreshToken_rotate_def generateTokens_def Let_def rotated_def)
  finally have first: "refreshToken e1 ?s (Some t)
      = (success 200 (TokenData ?tokens) ''Token refreshed successfully'', rotated ?s t t' uid)" .
  have gone: "refreshTokens (rotated ?s t t' uid) t = None"
    "refreshTokens (rotated ?s t t' uid) t' = Some uid"
    using assms(4) by (simp_all add: rotated_def)
  have "refreshToken e2 (run (rotated ?s t t' uid) later) (Some t)
      = (failure 401 ''Invalid or expired refresh token'', run (rotated ?s t t' uid) later)"
    if "list_all (\<lambda>call. generateRandomToken (fst call) \<noteq> Some t) later" for later e2
    using \<open>t \<noteq> []\<close> run_keeps_None [OF gone(1) that] by (rule refreshToken_unknown)
  with first gone show ?thesis
    by (intro exI [of _ ?tokens]) simp
qed

theorem refresh_token_single_use_witness:
  "refreshTokens (run (main (test_env 0 CHR ''a''))
       [(test_env 0 CHR ''a'', POST_auth_login admin_login)]) token_a = Some 1
   \<and> generateRandomToken (test_env 5 CHR ''b'') = Some token_b \<and> token_b \<noteq> token_a
   \<and> status (fst (refreshToken (test_env 5 CHR ''b'')
         (run (main (test_env 0 CHR ''a'')) [(test_env 0 CHR ''a'', POST_auth_login admin_login)])
         (Some token_a))) = 200
   \<and> fst (refreshToken (test_env 9 CHR ''c'')
         (rotated (run (main (test_env 0 CHR ''a''))
             [(test_env 0 CHR ''a'', POST_auth_login admin_login)]) token_a token_b 1)
         (Some token_a)) = failure 401 ''Invalid or expired refresh token''
   \<and> list_all (\<lambda>call. generateRandomToken (fst call) \<noteq> Some token_a)
        [(test_env 6 CHR ''c'', POST_auth_login admin_login),
         (test_env 7 CHR ''b'', POST_auth_refresh (Some token_c)),
         (test_env 8 CHR ''c'', POST_auth_register alice)]
   \<and> fst (refreshToken (test_env 9 CHR ''c'')
         (run (rotated (run (main (test_env 0 CHR ''a''))
                 [(test_env 0 CHR ''a'', POST_auth_login admin_login)]) token_a token_b 1)
            [(test_env 6 CHR ''c'', POST_auth_login admin_login),
             (test_env 7 CHR ''b'', POST_auth_refresh (Some token_c)),
             (test_env 8 CHR ''c'', POST_auth_register alice)])
         (Some token_a)) = failure 401 ''Invalid or expired refresh token''"
proof -
  let ?later = "[(test_env 6 CHR ''c'', POST_auth_login admin_login),
         (test_env 7 CHR ''b'', POST_auth_refresh (Some token_c)),
         (test_env 8 CHR ''c'', POST_auth_register alice)]"
  have held: "refreshTokens (run (main (test_env 0 CHR ''a''))
       [(test_env 0 CHR ''a'', POST_auth_login admin_login)]) token_a = Some 1"
    by (simp only: run_login_admin logged_in_fields) simp
  have signs: "\<forall>claims. jwt_SignedString (test_env 5 CHR ''b'') jwtSecret claims \<noteq> None"
    by (simp add: test_env_simps)
  have fresh: "generateRandomToken (test_env 5 CHR ''b'') = Some token_b"
    by (simp add: generateRandomToken_test token_b_def)
  have other: "list_all (\<lambda>call. generateRandomToken (fst call) \<noteq> Some token_a) ?later"
    using tokens_differ
    by (simp add: generateRandomToken_test token_b_def [symmetric] token_c_def [symmetric])
  note T = refresh_token_single_use [OF held signs fresh tokens_differ(1)]
  from T obtain tokens where
    first: "refreshToken (test_env 5 CHR ''b'')
        (run (main (test_env 0 CHR ''a'')) [(test_env 0 CHR ''a'', POST_auth_login admin_login)])
        (Some token_a)
      = (success 200 (TokenData tokens) ''Token refreshed successfully'',
         rotated (run (main (test_env 0 CHR ''a''))
           [(test_env 0 CHR ''a'', POST_auth_login admin_login)]) token_a token_b 1)"
    and replay: "\<forall>later e2.
        list_all (\<lambda>call. generateRandomToken (fst call) \<noteq> Some token_a) later \<longrightarrow>
        refreshToken e2 (run (rotated (run (main (test_env 0 CHR ''a''))
           [(test_env 0 CHR ''a'', POST_auth_login admin_login)]) token_a token_b 1) later)
           (Some token_a)
          = (failure 401 ''Invalid or expired refresh token'',
             run (rotated (run (main (test_env 0 CHR ''a''))
           [(test_env 0 CHR ''a'', POST_auth_login admin_login)]) token_a token_b 1) later)"
    by blast
  from replay [rule_format, of "[]" "test_env 9 CHR ''c''"]
  have next_one: "fst (refreshToken (test_env 9 CHR ''c'')
         (rotated (run (main (test_env 0 CHR ''a''))
             [(test_env 0 CHR ''a'', POST_auth_login admin_login)]) token_a token_b 1)
         (Some token_a)) = failure 401 ''Invalid or expired refresh token''"
    by simp
  from replay [rule_format, OF other, of "test_env 9 CHR ''c''"] next_one first held fresh other
    tokens_differ(1)
  show ?thesis
    by (simp add: success_def del: run.simps)
qed

text \<open>
  C1, as stated, fails when two refresh requests overlap: the handler takes no lock
  between its lookup and its \<open>delete\<close>. Below, both requests carry \<open>token_a\<close>. Each runs
  \<open>refreshToken_lookup\<close> on the state \<open>logged_in\<close>, before the other has written anything,
  and passes; then each runs \<open>refreshToken_rotate\<close>, one after the other. Both answer 200,
  each with a pair of its own.
\<close>

theorem refresh_overlapping_both_succeed:
  "refreshToken_lookup logged_in (Some token_a) = Inr (token_a, 0)
   \<and> fst (refreshToken_rotate (test_env 5 CHR ''b'') logged_in (token_a, 0))
       = success 200
           (TokenData \<lparr>AccessToken = ''signed.admin'', RefreshToken = token_b,
              TokenType = ''Bearer'', ExpiresIn = 900, ExpiresAt = 900000000005\<rparr>)
           ''Token refreshed successfully''
   \<and> fst (refreshToken_rotate (test_env 6 CHR ''c'')
            (snd (refreshToken_rotate (test_env 5 CHR ''b'') logged_in (token_a, 0)))
            (token_a, 0))
       = success 200
           (TokenData \<lparr>AccessToken = ''signed.admin'', RefreshToken = token_c,
              TokenType = ''Bearer'', ExpiresIn = 900, ExpiresAt = 900000000006\<rparr>)
           ''Token refreshed successfully''"
  by (simp add: refreshToken_lookup_def bind_RefreshRequest_def required_def token_nonempty
      findUserByID_def logged_in_fields refreshToken_rotate_def generateTokens_test
      token_b_def token_c_def Let_def)

text \<open>
  C4. The store keeps no time for a refresh token, and \<open>refreshTokenTTL\<close> is read
  nowhere. The administrator logs in at time 0; eight days later, one day after the seven
  days of \<open>refreshTokenTTL\<close>, the refresh token of that login is still accepted and
  rotated.
\<close>

theorem refresh_token_never_expires:
  "refreshTokens logged_in token_a = Some 1
   \<and> refreshTokenTTL = 7 * 24 * 60 * 60 * 1000000000
   \<and> time_Now (test_env (8 * 24 * Hour) CHR ''b'') In_generateTokens_response
       = 0 + refreshTokenTTL + 24 * Hour
   \<and> refreshToken (test_env (8 * 24 * Hour) CHR ''b'') logged_in (Some token_a)
       = (success 200
            (TokenData \<lparr>AccessToken = ''signed.admin'', RefreshToken = token_b,
               TokenType = ''Bearer'', ExpiresIn = 900,
               ExpiresAt = 8 * 24 * Hour + 900000000000\<rparr>)
            ''Token refreshed successfully'',
          rotated logged_in token_a token_b 1)"
  by (simp add: refreshToken_def refreshToken_lookup_def bind_RefreshRequest_def required_def
      token_nonempty findUserByID_def logged_in_fields refreshToken_rotate_def
      generateTokens_test Let_def rotated_def token_b_def test_env_simps
      refreshTokenTTL_def Hour_def Minute_def Second_def)

subsection \<open>The cost of hashing\<close>

text \<open>
  C5. \<open>hashPassword\<close> hashes with cost 12. \<open>register\<close> and \<open>changePassword\<close> do not call
  it: the hash that a successful registration or password change stores is the one bcrypt
  made at \<open>bcrypt.DefaultCost\<close>, which is 10. (In the closed instance the sample bcrypt
  shows the cost it was given in the hash.)
\<close>

theorem handlers_hash_with_default_cost:
  "hashPassword e password = bcrypt_GenerateFromPassword e password 12
   \<and> bcrypt_DefaultCost = 10
   \<and> (status (fst (register e s d)) = 201 \<longrightarrow>
        (\<exists>req. bind_RegisterRequest e d = Some req
           \<and> bcrypt_GenerateFromPassword e (reg_Password req) 10
               = Some (PasswordHash (last (users (snd (register e s d)))))))
   \<and> (status (fst (changePassword e s c dc)) = 200 \<longrightarrow>
        (\<exists>req claims i. bind_ChangePasswordRequest dc = Some req
           \<and> ctx_claims c = Some claims \<and> findUserByID s (claims_UserID claims) = Some i
           \<and> bcrypt_GenerateFromPassword e (NewPassword req) 10
               = Some (PasswordHash (users (snd (changePassword e s c dc)) ! i))))"
proof -
  have "status (fst (register e s d)) = 201 \<longrightarrow>
        (\<exists>req. bind_RegisterRequest e d = Some req
           \<and> bcrypt_GenerateFromPassword e (reg_Password req) 10
               = Some (PasswordHash (last (users (snd (register e s d))))))"
    using register_result [of e s d] by (auto simp: bcrypt_DefaultCost_def)
  moreover have "status (fst (changePassword e s c dc)) = 200 \<longrightarrow>
        (\<exists>req claims i. bind_ChangePasswordRequest dc = Some req
           \<and> ctx_claims c = Some claims \<and> findUserByID s (claims_UserID claims) = Some i
           \<and> bcrypt_GenerateFromPassword e (NewPassword req) 10
               = Some (PasswordHash (users (snd (changePassword e s c dc)) ! i)))"
    by (auto simp: changePassword_def Let_def failure_def bcrypt_DefaultCost_def
        dest: findUserByID_Some split: option.splits)
  ultimately show ?thesis
    by (simp add: hashPassword_def bcrypt_DefaultCost_def)
qed

theorem handlers_hash_with_default_cost_witness:
  "hashPassword (test_env 0 CHR ''a'') ''Abcdef1!'' = Some ''$2a$12$Abcdef1!''
   \<and> status (fst (register (test_env 0 CHR ''a'') started alice)) = 201
   \<and> PasswordHash (last (users (snd (register (test_env 0 CHR ''a'') started alice))))
       = ''$2a$10$Abcdef1!''
   \<and> status (fst (changePassword (test_env 0 CHR ''a'') started admin_ctx new_password)) = 200
   \<and> PasswordHash (users (snd (changePassword (test_env 0 CHR ''a'') started admin_ctx
          new_password)) ! 0) = ''$2a$10$Abcdef1!''"
proof -
  let ?e = "test_env 0 CHR ''a''"
  have ok: "status (fst (register ?e started alice)) = 201"
    "status (fst (changePassword ?e started admin_ctx new_password)) = 200"
    "findUserByID started 1 = Some 0"
    by (simp_all add: register_alice success_def changePassword_def admin_ctx_def admin_claims_def
        new_password_def bind_ChangePasswordRequest_def required_def rune_counts
        findUserByID_def started_fields test_env_simps Let_def)
  from handlers_hash_with_default_cost [of ?e "''Abcdef1!''" started alice admin_ctx new_password]
    ok alice_bound [of 0 "CHR ''a''"]
  show ?thesis
    by (auto simp: test_env_simps decimal2_simps admin_ctx_def admin_claims_def new_password_def
        bind_ChangePasswordRequest_def required_def rune_counts)
qed

end
